theory Spec2Isabelle
  imports
    Main
    "HOL-Library.Multiset"
    "HOL-Library.Char_ord"
    "HOL-Library.List_Lexorder"
    "HOL-Library.Product_Lexorder"
begin

section \<open>Values, documents and the document store\<close>

text \<open>
  The server (\<^verbatim>\<open>server.py\<close>) is a set of FastAPI route handlers over a MongoDB
  database. Python values that reach the store or a token payload are modelled by
  \<open>val\<close>. Python's \<^verbatim>\<open>str\<close> is modelled by its UTF-8 encoding (a \<open>string\<close> of
  bytes): equality and the store's binary string order are the same on both sides.
  A \<^verbatim>\<open>datetime\<close> is an integer count of microseconds, an \<^verbatim>\<open>int\<close> is unbounded.
\<close>

datatype val =
    PNone
  | PStr string
  | PInt int
  | PBool bool
  | PDatetime int
  | PObjectId nat

type_synonym document = "string \<rightharpoonup> val"

type_synonym query = "(string \<times> val) list"

text \<open>
  The four collections the handlers use (\<^verbatim>\<open>db.leaders\<close>, \<^verbatim>\<open>db.wars\<close>, \<^verbatim>\<open>db.gallery\<close>,
  \<^verbatim>\<open>db.testimonials\<close>). A collection is the list of its documents in insertion order,
  which is the order the store scans them in.
\<close>

record database =
  leaders :: "document list"
  wars :: "document list"
  gallery :: "document list"
  testimonials :: "document list"

datatype error =
    HTTPException nat string
  | ValueError
  | TypeError

subsection \<open>Store operations\<close>

text \<open>
  An equality filter \<^verbatim>\<open>{"k": v, ...}\<close> selects the documents whose field \<open>k\<close> holds \<open>v\<close>;
  the empty filter selects every document. (The handlers never filter on \<^verbatim>\<open>None\<close>.)
\<close>

definition matches :: "query \<Rightarrow> document \<Rightarrow> bool" where
  "matches q d = list_all (\<lambda>(k, v). d k = Some v) q"

text \<open>The projection \<^verbatim>\<open>{"k": 0, ...}\<close> drops the listed fields.\<close>

definition project :: "string list \<Rightarrow> document \<Rightarrow> document" where
  "project excluded d = (\<lambda>k. if List.member excluded k then None else d k)"

definition mongo_find :: "query \<Rightarrow> string list \<Rightarrow> document list \<Rightarrow> document list" where
  "mongo_find q excluded c = map (project excluded) (filter (matches q) c)"

definition mongo_find_one :: "query \<Rightarrow> string list \<Rightarrow> document list \<Rightarrow> document option" where
  "mongo_find_one q excluded c =
     (case filter (matches q) c of [] \<Rightarrow> None | d # _ \<Rightarrow> Some (project excluded d))"

text \<open>
  The store compares values of different types by type first (missing and null, then
  numbers, strings, object ids, booleans, dates), and values of one type by their own
  order; strings by their bytes.
\<close>

fun bson_key :: "val option \<Rightarrow> nat \<times> int \<times> string" where
  "bson_key None = (1, 0, [])"
| "bson_key (Some PNone) = (1, 0, [])"
| "bson_key (Some (PInt n)) = (2, n, [])"
| "bson_key (Some (PStr s)) = (3, 0, s)"
| "bson_key (Some (PObjectId k)) = (4, int k, [])"
| "bson_key (Some (PBool b)) = (5, (if b then 1 else 0), [])"
| "bson_key (Some (PDatetime t)) = (6, t, [])"

text \<open>
  \<^verbatim>\<open>.sort(field, 1)\<close> is ascending, \<^verbatim>\<open>.sort(field, -1)\<close> descending. The store promises no
  order among documents with equal keys; the model keeps them in scan order
  (ascending) or reversed scan order (descending).
\<close>

definition mongo_sort :: "string \<Rightarrow> int \<Rightarrow> document list \<Rightarrow> document list" where
  "mongo_sort field direction c =
     (if direction = 1 then sort_key (\<lambda>d. bson_key (d field)) c
      else rev (sort_key (\<lambda>d. bson_key (d field)) c))"

definition to_list :: "nat \<Rightarrow> document list \<Rightarrow> document list" where
  "to_list n c = take n c"

definition count_documents :: "query \<Rightarrow> document list \<Rightarrow> nat" where
  "count_documents q c = length (filter (matches q) c)"

text \<open>
  \<^verbatim>\<open>insert_one\<close> gives a document without \<^verbatim>\<open>_id\<close> a fresh object id and appends it;
  \<^verbatim>\<open>insert_many\<close> does so for each document in turn.
\<close>

definition with_object_id :: "nat \<Rightarrow> document \<Rightarrow> document" where
  "with_object_id oid doc =
     (case doc ''_id'' of None \<Rightarrow> doc(''_id'' \<mapsto> PObjectId oid) | Some _ \<Rightarrow> doc)"

definition insert_one :: "nat \<Rightarrow> document \<Rightarrow> document list \<Rightarrow> document list" where
  "insert_one oid doc c = c @ [with_object_id oid doc]"

definition insert_many :: "nat list \<Rightarrow> document list \<Rightarrow> document list \<Rightarrow> document list" where
  "insert_many oids docs c = c @ map2 with_object_id oids docs"

text \<open>
  \<^verbatim>\<open>update_one(filter, {"$set": fields})\<close> sets the fields on the first document the
  filter selects and reports \<^verbatim>\<open>matched_count\<close>; \<^verbatim>\<open>delete_one(filter)\<close> removes the first
  document the filter selects and reports \<^verbatim>\<open>deleted_count\<close>.
\<close>

fun update_first :: "('a \<Rightarrow> bool) \<Rightarrow> ('a \<Rightarrow> 'a) \<Rightarrow> 'a list \<Rightarrow> 'a list" where
  "update_first P f [] = []"
| "update_first P f (x # xs) = (if P x then f x # xs else x # update_first P f xs)"

fun delete_first :: "('a \<Rightarrow> bool) \<Rightarrow> 'a list \<Rightarrow> 'a list" where
  "delete_first P [] = []"
| "delete_first P (x # xs) = (if P x then xs else x # delete_first P xs)"

definition set_fields :: "query \<Rightarrow> document \<Rightarrow> document" where
  "set_fields new_values d = d ++ map_of new_values"

definition update_one :: "query \<Rightarrow> query \<Rightarrow> document list \<Rightarrow> nat \<times> document list" where
  "update_one q new_values c =
     ((if list_ex (matches q) c then 1 else 0), update_first (matches q) (set_fields new_values) c)"

definition delete_one :: "query \<Rightarrow> document list \<Rightarrow> nat \<times> document list" where
  "delete_one q c =
     ((if list_ex (matches q) c then 1 else 0), delete_first (matches q) c)"

section \<open>Models\<close>

text \<open>The pydantic models the handlers construct, and their \<^verbatim>\<open>model_dump()\<close>.\<close>

record WarStatistic =
  ws_id :: string
  ws_opponent :: string
  ws_wins :: int
  ws_losses :: int
  ws_order :: int

record WarStatisticCreate =
  wc_opponent :: string
  wc_wins :: int
  wc_losses :: int
  wc_order :: int

record WarStatisticUpdate =
  wu_opponent :: "string option"
  wu_wins :: "int option"
  wu_losses :: "int option"
  wu_order :: "int option"

record GalleryImage =
  gi_id :: string
  gi_image_url :: string
  gi_created_at :: int

record GalleryImageCreate =
  gc_image_url :: string

record Testimonial =
  t_id :: string
  t_author_name :: "string option"
  t_content :: string
  t_approved :: bool
  t_created_at :: int

record TestimonialCreate =
  tc_author_name :: "string option"
  tc_content :: string

record AdminLogin =
  username :: string
  password :: string

record AdminToken =
  access_token :: string
  token_type :: string

record HTTPAuthorizationCredentials =
  scheme :: string
  credentials :: string

record AdminStats =
  total_testimonials :: nat
  pending_testimonials :: nat
  approved_testimonials :: nat
  total_wars :: nat
  total_gallery :: nat

definition optional_str :: "string option \<Rightarrow> val" where
  "optional_str v = (case v of None \<Rightarrow> PNone | Some s \<Rightarrow> PStr s)"

definition optional_int :: "int option \<Rightarrow> val" where
  "optional_int v = (case v of None \<Rightarrow> PNone | Some n \<Rightarrow> PInt n)"

definition WarStatistic_model_dump :: "WarStatistic \<Rightarrow> document" where
  "WarStatistic_model_dump w =
     [''id'' \<mapsto> PStr (ws_id w), ''opponent'' \<mapsto> PStr (ws_opponent w),
      ''wins'' \<mapsto> PInt (ws_wins w), ''losses'' \<mapsto> PInt (ws_losses w),
      ''order'' \<mapsto> PInt (ws_order w)]"

definition WarStatisticUpdate_model_dump :: "WarStatisticUpdate \<Rightarrow> query" where
  "WarStatisticUpdate_model_dump u =
     [(''opponent'', optional_str (wu_opponent u)), (''wins'', optional_int (wu_wins u)),
      (''losses'', optional_int (wu_losses u)), (''order'', optional_int (wu_order u))]"

definition GalleryImage_model_dump :: "GalleryImage \<Rightarrow> document" where
  "GalleryImage_model_dump g =
     [''id'' \<mapsto> PStr (gi_id g), ''image_url'' \<mapsto> PStr (gi_image_url g),
      ''created_at'' \<mapsto> PDatetime (gi_created_at g)]"

definition Testimonial_model_dump :: "Testimonial \<Rightarrow> document" where
  "Testimonial_model_dump t =
     [''id'' \<mapsto> PStr (t_id t), ''author_name'' \<mapsto> optional_str (t_author_name t),
      ''content'' \<mapsto> PStr (t_content t), ''approved'' \<mapsto> PBool (t_approved t),
      ''created_at'' \<mapsto> PDatetime (t_created_at t)]"

definition default_author_name :: string where
  "default_author_name =
    [CHR 0xD0, CHR 0x90, CHR 0xD0, CHR 0xBD, CHR 0xD0, CHR 0xBE, CHR 0xD0, CHR 0xBD, CHR 0xD0,
     CHR 0xB8, CHR 0xD0, CHR 0xBC, CHR 0xD0, CHR 0xBD, CHR 0xD1, CHR 0x8B, CHR 0xD0, CHR 0xB9,
     CHR 0x20, CHR 0xD0, CHR 0xB2, CHR 0xD0, CHR 0xBE, CHR 0xD0, CHR 0xB8, CHR 0xD0, CHR 0xBD]"

definition leader1_name :: string where
  "leader1_name =
    [CHR 0xD0, CHR 0x92, CHR 0xD0, CHR 0xB5, CHR 0xD1, CHR 0x80, CHR 0xD0, CHR 0xB3, CHR 0xD0,
     CHR 0xB8, CHR 0xD0, CHR 0xBB, CHR 0xD0, CHR 0xB8, CHR 0xD0, CHR 0xB9]"

definition leader1_title :: string where
  "leader1_title =
    [CHR 0xD0, CHR 0x9E, CHR 0xD1, CHR 0x81, CHR 0xD0, CHR 0xBD, CHR 0xD0, CHR 0xBE, CHR 0xD0,
     CHR 0xB2, CHR 0xD0, CHR 0xB0, CHR 0xD1, CHR 0x82, CHR 0xD0, CHR 0xB5, CHR 0xD0, CHR 0xBB,
     CHR 0xD1, CHR 0x8C, CHR 0x20, CHR 0xD0, CHR 0xBA, CHR 0xD0, CHR 0xBB, CHR 0xD0, CHR 0xB0,
     CHR 0xD0, CHR 0xBD, CHR 0xD0, CHR 0xB0]"

definition leader1_description :: string where
  "leader1_description =
    [CHR 0xD0, CHR 0x9C, CHR 0xD1, CHR 0x83, CHR 0xD0, CHR 0xB4, CHR 0xD1, CHR 0x80, CHR 0xD1,
     CHR 0x8B, CHR 0xD0, CHR 0xB9, CHR 0x20, CHR 0xD0, CHR 0xBB, CHR 0xD0, CHR 0xB8, CHR 0xD0,
     CHR 0xB4, CHR 0xD0, CHR 0xB5, CHR 0xD1, CHR 0x80, CHR 0x20, CHR 0xD0, CHR 0xB8, CHR 0x20,
     CHR 0xD1, CHR 0x81, CHR 0xD0, CHR 0xB8, CHR 0xD0, CHR 0xBC, CHR 0xD0, CHR 0xB2, CHR 0xD0,
     CHR 0xBE, CHR 0xD0, CHR 0xBB, CHR 0x20, CHR 0xD1, CHR 0x87, CHR 0xD0, CHR 0xB5, CHR 0xD1,
     CHR 0x81, CHR 0xD1, CHR 0x82, CHR 0xD0, CHR 0xB8, CHR 0x20, CHR 0xD0, CHR 0xBA, CHR 0xD0,
     CHR 0xBB, CHR 0xD0, CHR 0xB0, CHR 0xD0, CHR 0xBD, CHR 0xD0, CHR 0xB0, CHR 0x20, CHR ''P'',
     CHR ''O'', CHR ''R'', CHR ''T'', CHR ''U'', CHR ''G'', CHR ''A'', CHR ''L'', CHR 0x2E,
     CHR 0x20, CHR 0xD0, CHR 0x9E, CHR 0xD1, CHR 0x81, CHR 0xD0, CHR 0xBD, CHR 0xD0, CHR 0xBE,
     CHR 0xD0, CHR 0xB2, CHR 0xD0, CHR 0xB0, CHR 0xD0, CHR 0xBB, CHR 0x20, CHR 0xD0, CHR 0xBB,
     CHR 0xD0, CHR 0xB5, CHR 0xD0, CHR 0xB3, CHR 0xD0, CHR 0xB5, CHR 0xD0, CHR 0xBD, CHR 0xD0,
     CHR 0xB4, CHR 0xD1, CHR 0x83, CHR 0x2E]"

definition leader2_name :: string where
  "leader2_name =
    [CHR 0xD0, CHR 0x90, CHR 0xD1, CHR 0x81, CHR 0xD1, CHR 0x82, CHR 0xD0, CHR 0xB5, CHR 0xD1,
     CHR 0x80]"

definition leader2_title :: string where
  "leader2_title =
    [CHR 0xD0, CHR 0x93, CHR 0xD0, CHR 0xBB, CHR 0xD0, CHR 0xB0, CHR 0xD0, CHR 0xB2, CHR 0xD0,
     CHR 0xBD, CHR 0xD0, CHR 0xBE, CHR 0xD0, CHR 0xBA, CHR 0xD0, CHR 0xBE, CHR 0xD0, CHR 0xBC,
     CHR 0xD0, CHR 0xB0, CHR 0xD0, CHR 0xBD, CHR 0xD0, CHR 0xB4, CHR 0xD1, CHR 0x83, CHR 0xD1,
     CHR 0x8E, CHR 0xD1, CHR 0x89, CHR 0xD0, CHR 0xB8, CHR 0xD0, CHR 0xB9, CHR 0x20, CHR 0xD0,
     CHR 0xBA, CHR 0xD0, CHR 0xBB, CHR 0xD0, CHR 0xB0, CHR 0xD0, CHR 0xBD, CHR 0xD0, CHR 0xB0]"

definition leader2_description :: string where
  "leader2_description =
    [CHR 0xD0, CHR 0xA1, CHR 0xD1, CHR 0x82, CHR 0xD1, CHR 0x80, CHR 0xD0, CHR 0xB0, CHR 0xD1,
     CHR 0x82, CHR 0xD0, CHR 0xB5, CHR 0xD0, CHR 0xB3, CHR 0x20, CHR 0xD0, CHR 0xB8, CHR 0x20,
     CHR 0xD0, CHR 0xB3, CHR 0xD0, CHR 0xB5, CHR 0xD1, CHR 0x80, CHR 0xD0, CHR 0xBE, CHR 0xD0,
     CHR 0xB9, CHR 0x20, CHR 0xD0, CHR 0x9F, CHR 0xD0, CHR 0xBE, CHR 0xD1, CHR 0x80, CHR 0xD1,
     CHR 0x82, CHR 0xD1, CHR 0x83, CHR 0xD0, CHR 0xB3, CHR 0xD0, CHR 0xB0, CHR 0xD0, CHR 0xBB,
     CHR 0xD0, CHR 0xB8, CHR 0xD0, CHR 0xB8, CHR 0x2E, CHR 0x20, CHR 0xD0, CHR 0x92, CHR 0xD0,
     CHR 0xB5, CHR 0xD0, CHR 0xB4, CHR 0xD1, CHR 0x91, CHR 0xD1, CHR 0x82, CHR 0x20, CHR 0xD0,
     CHR 0xBA, CHR 0xD0, CHR 0xBB, CHR 0xD0, CHR 0xB0, CHR 0xD0, CHR 0xBD, CHR 0x20, CHR 0xD0,
     CHR 0xBA, CHR 0x20, CHR 0xD0, CHR 0xB2, CHR 0xD0, CHR 0xB5, CHR 0xD0, CHR 0xBB, CHR 0xD0,
     CHR 0xB8, CHR 0xD0, CHR 0xBA, CHR 0xD0, CHR 0xB8, CHR 0xD0, CHR 0xBC, CHR 0x20, CHR 0xD0,
     CHR 0xBF, CHR 0xD0, CHR 0xBE, CHR 0xD0, CHR 0xB1, CHR 0xD0, CHR 0xB5, CHR 0xD0, CHR 0xB4,
     CHR 0xD0, CHR 0xB0, CHR 0xD0, CHR 0xBC, CHR 0x2E]"

definition leader3_name :: string where
  "leader3_name =
    [CHR 0xD0, CHR 0x94, CHR 0xD0, CHR 0xB5, CHR 0xD0, CHR 0xBD, CHR 0xD0, CHR 0xB8, CHR 0xD1,
     CHR 0x81]"

definition leader3_title :: string where
  "leader3_title =
    [CHR 0xD0, CHR 0x93, CHR 0xD0, CHR 0xB5, CHR 0xD1, CHR 0x80, CHR 0xD1, CHR 0x86, CHR 0xD0,
     CHR 0xBE, CHR 0xD0, CHR 0xB3, CHR 0x20, CHR 0xD0, CHR 0x91, CHR 0xD1, CHR 0x80, CHR 0xD0,
     CHR 0xB0, CHR 0xD0, CHR 0xB3, CHR 0xD0, CHR 0xB8]"

definition leader3_description :: string where
  "leader3_description =
    [CHR 0xD0, CHR 0xAD, CHR 0xD0, CHR 0xBB, CHR 0xD0, CHR 0xB8, CHR 0xD1, CHR 0x82, CHR 0xD0,
     CHR 0xBD, CHR 0xD1, CHR 0x8B, CHR 0xD0, CHR 0xB9, CHR 0x20, CHR 0xD0, CHR 0xB2, CHR 0xD0,
     CHR 0xBE, CHR 0xD0, CHR 0xB8, CHR 0xD0, CHR 0xBD, CHR 0x20, CHR 0xD0, CHR 0xB8, CHR 0x20,
     CHR 0xD0, CHR 0xBF, CHR 0xD1, CHR 0x80, CHR 0xD0, CHR 0xB0, CHR 0xD0, CHR 0xB2, CHR 0xD0,
     CHR 0xB0, CHR 0xD1, CHR 0x8F, CHR 0x20, CHR 0xD1, CHR 0x80, CHR 0xD1, CHR 0x83, CHR 0xD0,
     CHR 0xBA, CHR 0xD0, CHR 0xB0, CHR 0x20, CHR 0xD0, CHR 0x90, CHR 0xD1, CHR 0x81, CHR 0xD1,
     CHR 0x82, CHR 0xD0, CHR 0xB5, CHR 0xD1, CHR 0x80, CHR 0xD0, CHR 0xB0, CHR 0x2E, CHR 0x20,
     CHR 0xD0, CHR 0x9D, CHR 0xD0, CHR 0xB5, CHR 0xD0, CHR 0xBF, CHR 0xD0, CHR 0xBE, CHR 0xD0,
     CHR 0xB1, CHR 0xD0, CHR 0xB5, CHR 0xD0, CHR 0xB4, CHR 0xD0, CHR 0xB8, CHR 0xD0, CHR 0xBC,
     CHR 0x20, CHR 0xD0, CHR 0xB2, CHR 0x20, CHR 0xD0, CHR 0xB1, CHR 0xD0, CHR 0xBE, CHR 0xD1,
     CHR 0x8E, CHR 0x2E]"

definition war1_opponent :: string where
  "war1_opponent =
    [CHR 0xD0, CHR 0x9C, CHR 0xD0, CHR 0xBE, CHR 0xD0, CHR 0xBD, CHR 0xD0, CHR 0xB3, CHR 0xD0,
     CHR 0xBE, CHR 0xD0, CHR 0xBB, CHR 0xD0, CHR 0xB8, CHR 0xD1, CHR 0x8F, CHR 0x20, CHR 0xD0,
     CHR 0xB8, CHR 0x20, CHR 0xD0, CHR 0x9A, CHR 0xD0, CHR 0xB0, CHR 0xD0, CHR 0xB7, CHR 0xD0,
     CHR 0xB0, CHR 0xD1, CHR 0x85, CHR 0xD0, CHR 0xB8]"

definition war2_opponent :: string where
  "war2_opponent =
    [CHR 0xD0, CHR 0xA4, CHR 0xD1, CHR 0x80, CHR 0xD0, CHR 0xB0, CHR 0xD0, CHR 0xBD, CHR 0xD1,
     CHR 0x86, CHR 0xD0, CHR 0xB8, CHR 0xD1, CHR 0x8F]"

definition war3_opponent :: string where
  "war3_opponent =
    [CHR 0xD0, CHR 0xA0, CHR 0xD0, CHR 0xB8, CHR 0xD0, CHR 0xBC]"

definition war4_opponent :: string where
  "war4_opponent =
    [CHR 0xD0, CHR 0x94, CHR 0xD0, CHR 0xB6, CHR 0xD0, CHR 0x9A]"

definition war5_opponent :: string where
  "war5_opponent =
    [CHR 0xD0, CHR 0x90, CHR 0xD0, CHR 0xBD, CHR 0xD0, CHR 0xB3, CHR 0xD0, CHR 0xBB, CHR 0xD0,
     CHR 0xB8, CHR 0xD1, CHR 0x8F]"

definition war6_opponent :: string where
  "war6_opponent =
    [CHR 0xD0, CHR 0x9E, CHR 0xD0, CHR 0xA3]"
definition TestimonialCreate_of_body :: "string option option \<Rightarrow> string \<Rightarrow> TestimonialCreate" where
  "TestimonialCreate_of_body author_name content =
     \<lparr>tc_author_name = (case author_name of None \<Rightarrow> Some default_author_name | Some v \<Rightarrow> v),
      tc_content = content\<rparr>"

section \<open>The environment of a request\<close>

text \<open>
  What a handler reads from outside the program: the configuration
  (\<^verbatim>\<open>JWT_SECRET_KEY\<close>, \<^verbatim>\<open>ADMIN_USERNAME\<close>, \<^verbatim>\<open>ADMIN_PASSWORD\<close>), the library functions
  \<^verbatim>\<open>jwt.encode\<close> and \<^verbatim>\<open>jwt.decode\<close> (with the algorithm fixed to HS256; decoding
  checks the signature and the expiry at the time of the request),
  \<^verbatim>\<open>datetime.isoformat\<close> and \<^verbatim>\<open>datetime.fromisoformat\<close> (\<open>None\<close> where it raises
  \<^verbatim>\<open>ValueError\<close>), the construction \<^verbatim>\<open>WarStatistic(**doc)\<close> from a stored document, and
  the values the \<open>n\<close>-th call of \<^verbatim>\<open>uuid.uuid4()\<close>, of \<^verbatim>\<open>datetime.now(timezone.utc)\<close> and
  of the store's object id generator returns during the request.
\<close>

datatype jwt_error = ExpiredSignatureError | InvalidTokenError

record env =
  JWT_SECRET :: string
  ADMIN_USERNAME :: string
  ADMIN_PASSWORD :: string
  jwt_encode :: "document \<Rightarrow> string \<Rightarrow> string"
  jwt_decode :: "string \<Rightarrow> string \<Rightarrow> jwt_error + document"
  isoformat :: "int \<Rightarrow> string"
  fromisoformat :: "string \<Rightarrow> int option"
  WarStatistic_of_doc :: "document \<Rightarrow> error + WarStatistic"
  uuid4 :: "nat \<Rightarrow> string"
  utcnow :: "nat \<Rightarrow> int"
  ObjectId :: "nat \<Rightarrow> nat"

section \<open>Auth\<close>

definition timedelta_hours :: "int \<Rightarrow> int" where
  "timedelta_hours h = h * 3600 * 1000000"

definition create_access_token :: "env \<Rightarrow> document \<Rightarrow> int \<Rightarrow> string" where
  "create_access_token E data expires_delta =
     (let to_encode = data;
          expire = utcnow E 0 + expires_delta;
          to_encode = to_encode(''exp'' \<mapsto> PDatetime expire)
      in jwt_encode E to_encode (JWT_SECRET E))"

definition verify_token :: "env \<Rightarrow> HTTPAuthorizationCredentials \<Rightarrow> error + document" where
  "verify_token E creds =
     (let token = credentials creds in
      case jwt_decode E token (JWT_SECRET E) of
        Inr payload \<Rightarrow> Inr payload
      | Inl ExpiredSignatureError \<Rightarrow> Inl (HTTPException 401 ''Token expired'')
      | Inl InvalidTokenError \<Rightarrow> Inl (HTTPException 401 ''Invalid token''))"

text \<open>
  \<^verbatim>\<open>token: dict = Depends(verify_token)\<close>: the framework first resolves the
  \<^verbatim>\<open>HTTPBearer\<close> dependency of \<open>verify_token\<close>, which either yields the credentials of
  the request's Authorization header or fails with the framework's own error (no
  header, or not a bearer scheme); the handler body runs only with the payload
  \<open>verify_token\<close> returns, and a failure is the response, the store untouched.
\<close>

type_synonym bearer = "error + HTTPAuthorizationCredentials"

definition Depends_verify_token :: "env \<Rightarrow> bearer \<Rightarrow> error + document" where
  "Depends_verify_token E auth =
     (case auth of Inl e \<Rightarrow> Inl e | Inr creds \<Rightarrow> verify_token E creds)"

definition with_token ::
  "env \<Rightarrow> bearer \<Rightarrow> database \<Rightarrow> (document \<Rightarrow> (error + 'a) \<times> database) \<Rightarrow> (error + 'a) \<times> database"
where
  "with_token E auth db body =
     (case Depends_verify_token E auth of Inl e \<Rightarrow> (Inl e, db) | Inr token \<Rightarrow> body token)"

section \<open>Routes\<close>

subsection \<open>Auth\<close>

definition admin_login :: "env \<Rightarrow> AdminLogin \<Rightarrow> error + AdminToken" where
  "admin_login E login_data =
     (if username login_data = ADMIN_USERNAME E \<and> password login_data = ADMIN_PASSWORD E then
        let access_token =
              create_access_token E
                [''sub'' \<mapsto> PStr (username login_data), ''role'' \<mapsto> PStr ''admin'']
                (timedelta_hours 24)
        in Inr \<lparr>access_token = access_token, token_type = ''bearer''\<rparr>
      else Inl (HTTPException 401 ''Invalid credentials''))"

subsection \<open>Leaders and war statistics\<close>

definition get_leaders :: "database \<Rightarrow> document list" where
  "get_leaders db = to_list 100 (mongo_sort ''order'' 1 (mongo_find [] [''_id''] (leaders db)))"

definition get_wars :: "database \<Rightarrow> document list" where
  "get_wars db = to_list 100 (mongo_sort ''order'' 1 (mongo_find [] [''_id''] (wars db)))"

definition create_war ::
  "env \<Rightarrow> bearer \<Rightarrow> WarStatisticCreate \<Rightarrow> database \<Rightarrow> (error + WarStatistic) \<times> database"
where
  "create_war E auth war_data db = with_token E auth db (\<lambda>token.
     let war_obj = \<lparr>ws_id = uuid4 E 0, ws_opponent = wc_opponent war_data,
                    ws_wins = wc_wins war_data, ws_losses = wc_losses war_data,
                    ws_order = wc_order war_data\<rparr>;
         doc = WarStatistic_model_dump war_obj
     in (Inr war_obj, db\<lparr>wars := insert_one (ObjectId E 0) doc (wars db)\<rparr>))"

text \<open>
  In \<open>update_war\<close>, \<^verbatim>\<open>if not existing\<close> is the test for \<^verbatim>\<open>None\<close>: a document that
  \<^verbatim>\<open>find_one\<close> returns carries the \<^verbatim>\<open>id\<close> it was found by, so it is never the empty
  dictionary. \<^verbatim>\<open>WarStatistic(**updated)\<close> with \<^verbatim>\<open>updated\<close> being \<^verbatim>\<open>None\<close> is a \<^verbatim>\<open>TypeError\<close>.
\<close>

definition update_war ::
  "env \<Rightarrow> bearer \<Rightarrow> string \<Rightarrow> WarStatisticUpdate \<Rightarrow> database \<Rightarrow> (error + WarStatistic) \<times> database"
where
  "update_war E auth war_id war_data db = with_token E auth db (\<lambda>token.
     let existing = mongo_find_one [(''id'', PStr war_id)] [''_id''] (wars db) in
     case existing of
       None \<Rightarrow> (Inl (HTTPException 404 ''War not found''), db)
     | Some _ \<Rightarrow>
         let update_data = filter (\<lambda>(k, v). v \<noteq> PNone) (WarStatisticUpdate_model_dump war_data);
             db = (if update_data \<noteq> []
                   then db\<lparr>wars := snd (update_one [(''id'', PStr war_id)] update_data (wars db))\<rparr>
                   else db);
             updated = mongo_find_one [(''id'', PStr war_id)] [''_id''] (wars db)
         in (case updated of
               None \<Rightarrow> (Inl TypeError, db)
             | Some doc \<Rightarrow> (WarStatistic_of_doc E doc, db)))"

definition delete_war ::
  "env \<Rightarrow> bearer \<Rightarrow> string \<Rightarrow> database \<Rightarrow> (error + string) \<times> database"
where
  "delete_war E auth war_id db = with_token E auth db (\<lambda>token.
     let (deleted_count, wars') = delete_one [(''id'', PStr war_id)] (wars db);
         db = db\<lparr>wars := wars'\<rparr>
     in if deleted_count = 0 then (Inl (HTTPException 404 ''War not found''), db)
        else (Inr ''War deleted successfully'', db))"

subsection \<open>Gallery\<close>

text \<open>
  The loop of \<open>get_gallery\<close> and \<open>get_testimonials\<close> replaces a string \<^verbatim>\<open>created_at\<close> by
  the datetime it parses to; \<^verbatim>\<open>fromisoformat\<close> raising ends the request.
\<close>

definition parse_created_at :: "env \<Rightarrow> document \<Rightarrow> error + document" where
  "parse_created_at E img =
     (case img ''created_at'' of
        Some (PStr s) \<Rightarrow>
          (case fromisoformat E s of
             None \<Rightarrow> Inl ValueError
           | Some t \<Rightarrow> Inr (img(''created_at'' \<mapsto> PDatetime t)))
      | _ \<Rightarrow> Inr img)"

fun for_each :: "('a \<Rightarrow> error + 'a) \<Rightarrow> 'a list \<Rightarrow> error + 'a list" where
  "for_each f [] = Inr []"
| "for_each f (x # xs) =
     (case f x of
        Inl e \<Rightarrow> Inl e
      | Inr y \<Rightarrow> (case for_each f xs of Inl e \<Rightarrow> Inl e | Inr ys \<Rightarrow> Inr (y # ys)))"

definition get_gallery :: "env \<Rightarrow> database \<Rightarrow> error + document list" where
  "get_gallery E db =
     (let images = to_list 100 (mongo_sort ''created_at'' (- 1) (mongo_find [] [''_id''] (gallery db)))
      in for_each (parse_created_at E) images)"

definition isoformat_created_at :: "env \<Rightarrow> document \<Rightarrow> document" where
  "isoformat_created_at E doc =
     (case doc ''created_at'' of
        Some (PDatetime t) \<Rightarrow> doc(''created_at'' \<mapsto> PStr (isoformat E t))
      | _ \<Rightarrow> doc)"

definition add_gallery_image ::
  "env \<Rightarrow> bearer \<Rightarrow> GalleryImageCreate \<Rightarrow> database \<Rightarrow> (error + GalleryImage) \<times> database"
where
  "add_gallery_image E auth image_data db = with_token E auth db (\<lambda>token.
     let image_obj = \<lparr>gi_id = uuid4 E 0, gi_image_url = gc_image_url image_data,
                      gi_created_at = utcnow E 0\<rparr>;
         doc = GalleryImage_model_dump image_obj;
         doc = isoformat_created_at E doc
     in (Inr image_obj, db\<lparr>gallery := insert_one (ObjectId E 0) doc (gallery db)\<rparr>))"

definition delete_gallery_image ::
  "env \<Rightarrow> bearer \<Rightarrow> string \<Rightarrow> database \<Rightarrow> (error + string) \<times> database"
where
  "delete_gallery_image E auth image_id db = with_token E auth db (\<lambda>token.
     let (deleted_count, gallery') = delete_one [(''id'', PStr image_id)] (gallery db);
         db = db\<lparr>gallery := gallery'\<rparr>
     in if deleted_count = 0 then (Inl (HTTPException 404 ''Image not found''), db)
        else (Inr ''Image deleted successfully'', db))"

subsection \<open>Testimonials\<close>

definition get_testimonials :: "env \<Rightarrow> bool \<Rightarrow> database \<Rightarrow> error + document list" where
  "get_testimonials E approved_only db =
     (let q = (if approved_only then [(''approved'', PBool True)] else []);
          found = to_list 100
            (mongo_sort ''created_at'' (- 1) (mongo_find q [''_id''] (testimonials db)))
      in for_each (parse_created_at E) found)"

definition create_testimonial ::
  "env \<Rightarrow> TestimonialCreate \<Rightarrow> database \<Rightarrow> Testimonial \<times> database"
where
  "create_testimonial E testimonial_data db =
     (let testimonial_obj = \<lparr>t_id = uuid4 E 0, t_author_name = tc_author_name testimonial_data,
                            t_content = tc_content testimonial_data, t_approved = False,
                            t_created_at = utcnow E 0\<rparr>;
          doc = Testimonial_model_dump testimonial_obj;
          doc = isoformat_created_at E doc
      in (testimonial_obj, db\<lparr>testimonials := insert_one (ObjectId E 0) doc (testimonials db)\<rparr>))"

definition approve_testimonial ::
  "env \<Rightarrow> bearer \<Rightarrow> string \<Rightarrow> database \<Rightarrow> (error + string) \<times> database"
where
  "approve_testimonial E auth testimonial_id db = with_token E auth db (\<lambda>token.
     let (matched_count, testimonials') =
           update_one [(''id'', PStr testimonial_id)] [(''approved'', PBool True)] (testimonials db);
         db = db\<lparr>testimonials := testimonials'\<rparr>
     in if matched_count = 0 then (Inl (HTTPException 404 ''Testimonial not found''), db)
        else (Inr ''Testimonial approved'', db))"

definition delete_testimonial ::
  "env \<Rightarrow> bearer \<Rightarrow> string \<Rightarrow> database \<Rightarrow> (error + string) \<times> database"
where
  "delete_testimonial E auth testimonial_id db = with_token E auth db (\<lambda>token.
     let (deleted_count, testimonials') =
           delete_one [(''id'', PStr testimonial_id)] (testimonials db);
         db = db\<lparr>testimonials := testimonials'\<rparr>
     in if deleted_count = 0 then (Inl (HTTPException 404 ''Testimonial not found''), db)
        else (Inr ''Testimonial deleted successfully'', db))"

subsection \<open>Admin stats\<close>

definition get_admin_stats :: "env \<Rightarrow> bearer \<Rightarrow> database \<Rightarrow> (error + AdminStats) \<times> database" where
  "get_admin_stats E auth db = with_token E auth db (\<lambda>token.
     (Inr \<lparr>total_testimonials = count_documents [] (testimonials db),
           pending_testimonials = count_documents [(''approved'', PBool False)] (testimonials db),
           approved_testimonials = count_documents [(''approved'', PBool True)] (testimonials db),
           total_wars = count_documents [] (wars db),
           total_gallery = count_documents [] (gallery db)\<rparr>, db))"

subsection \<open>Initialize default data\<close>

definition artifacts :: string where
  "artifacts =
     ''https://customer-assets.emergentagent.com/job_e7a85aa0-8f83-447e-897d-d6a37e1483e7/artifacts/''"

definition leader_doc :: "string \<Rightarrow> string \<Rightarrow> string \<Rightarrow> string \<Rightarrow> string \<Rightarrow> int \<Rightarrow> document" where
  "leader_doc i name title description image_url ord =
     [''id'' \<mapsto> PStr i, ''name'' \<mapsto> PStr name, ''title'' \<mapsto> PStr title,
      ''description'' \<mapsto> PStr description, ''image_url'' \<mapsto> PStr image_url,
      ''order'' \<mapsto> PInt ord]"

definition war_doc :: "string \<Rightarrow> string \<Rightarrow> int \<Rightarrow> int \<Rightarrow> int \<Rightarrow> document" where
  "war_doc i opponent w l ord =
     [''id'' \<mapsto> PStr i, ''opponent'' \<mapsto> PStr opponent, ''wins'' \<mapsto> PInt w,
      ''losses'' \<mapsto> PInt l, ''order'' \<mapsto> PInt ord]"

definition gallery_doc :: "string \<Rightarrow> string \<Rightarrow> string \<Rightarrow> document" where
  "gallery_doc i image_url created_at =
     [''id'' \<mapsto> PStr i, ''image_url'' \<mapsto> PStr image_url, ''created_at'' \<mapsto> PStr created_at]"

definition seed_leaders :: "env \<Rightarrow> document list" where
  "seed_leaders E =
     [leader_doc (uuid4 E 0) leader1_name leader1_title leader1_description
        (artifacts @ ''nrlemlvl_image.png'') 1,
      leader_doc (uuid4 E 1) leader2_name leader2_title leader2_description
        (artifacts @ ''bnfzign7_image.png'') 2,
      leader_doc (uuid4 E 2) leader3_name leader3_title leader3_description
        (artifacts @ ''4im444p4_image.png'') 3]"

definition seed_wars :: "env \<Rightarrow> document list" where
  "seed_wars E =
     [war_doc (uuid4 E 3) war1_opponent 11 1 1,
      war_doc (uuid4 E 4) war2_opponent 6 0 2,
      war_doc (uuid4 E 5) war3_opponent 4 4 3,
      war_doc (uuid4 E 6) war4_opponent 1 5 4,
      war_doc (uuid4 E 7) war5_opponent 0 1 5,
      war_doc (uuid4 E 8) war6_opponent 2 0 6]"

definition seed_gallery :: "env \<Rightarrow> document list" where
  "seed_gallery E =
     [gallery_doc (uuid4 E 9) (artifacts @ ''nrlemlvl_image.png'') (isoformat E (utcnow E 0)),
      gallery_doc (uuid4 E 10) (artifacts @ ''bnfzign7_image.png'') (isoformat E (utcnow E 1)),
      gallery_doc (uuid4 E 11) (artifacts @ ''4im444p4_image.png'') (isoformat E (utcnow E 2)),
      gallery_doc (uuid4 E 12) (artifacts @ ''rsdp2wa0_image.png'') (isoformat E (utcnow E 3))]"

definition initialize_data :: "env \<Rightarrow> database \<Rightarrow> string \<times> database" where
  "initialize_data E db =
     (let existing_leaders = count_documents [] (leaders db) in
      if existing_leaders > 0 then (''Database already initialized'', db)
      else
        let db = db\<lparr>leaders := insert_many (map (ObjectId E) [0..<3]) (seed_leaders E) (leaders db)\<rparr>;
            db = db\<lparr>wars := insert_many (map (ObjectId E) [3..<9]) (seed_wars E) (wars db)\<rparr>;
            db = db\<lparr>gallery := insert_many (map (ObjectId E) [9..<13]) (seed_gallery E) (gallery db)\<rparr>
        in (''Database initialized successfully'', db))"

section \<open>Requests and runs\<close>




section \<open>Properties of stores, listings and requests\<close>

definition empty_db :: database where
  "empty_db = \<lparr>leaders = [], wars = [], gallery = [], testimonials = []\<rparr>"

definition ascending_by :: "string \<Rightarrow> document list \<Rightarrow> bool" where
  "ascending_by field ds = sorted (map (\<lambda>d. bson_key (d field)) ds)"

definition descending_by :: "string \<Rightarrow> document list \<Rightarrow> bool" where
  "descending_by field ds = sorted (rev (map (\<lambda>d. bson_key (d field)) ds))"

definition has_id :: "string \<Rightarrow> document \<Rightarrow> bool" where
  "has_id i d = (d ''id'' = Some (PStr i))"

text \<open>\<open>first_with_id i c xs d ys\<close>: \<open>d\<close> is the first document of \<open>c\<close> whose \<^verbatim>\<open>id\<close> is \<open>i\<close>.\<close>

definition first_with_id ::
  "string \<Rightarrow> document list \<Rightarrow> document list \<Rightarrow> document \<Rightarrow> document list \<Rightarrow> bool"
where
  "first_with_id i c xs d ys = (c = xs @ d # ys \<and> has_id i d \<and> \<not> list_ex (has_id i) xs)"






section \<open>An example environment and example data\<close>

text \<open>
  A small concrete environment to evaluate the handlers in: a token is valid exactly
  when it is the secret followed by \<^verbatim>\<open>.admin\<close>, a datetime \<open>t\<close> is written as \<open>t\<close> letters
  \<^verbatim>\<open>T\<close>, and a stored war document is read back strictly.
\<close>

definition example_WarStatistic_of_doc :: "document \<Rightarrow> error + WarStatistic" where
  "example_WarStatistic_of_doc d =
     (case d ''id'' of Some (PStr i) \<Rightarrow>
       (case d ''opponent'' of Some (PStr opp) \<Rightarrow>
         (case d ''wins'' of Some (PInt w) \<Rightarrow>
           (case d ''losses'' of Some (PInt l) \<Rightarrow>
             (case d ''order'' of Some (PInt r) \<Rightarrow>
                Inr \<lparr>ws_id = i, ws_opponent = opp, ws_wins = w, ws_losses = l, ws_order = r\<rparr>
              | _ \<Rightarrow> Inl ValueError)
            | _ \<Rightarrow> Inl ValueError)
          | _ \<Rightarrow> Inl ValueError)
        | _ \<Rightarrow> Inl ValueError)
      | _ \<Rightarrow> Inl ValueError)"

definition example_env :: env where
  "example_env =
     \<lparr>JWT_SECRET = ''secret'', ADMIN_USERNAME = ''admin'', ADMIN_PASSWORD = ''hunter2'',
      jwt_encode = (\<lambda>payload key.
        key @ (case payload ''sub'' of Some (PStr s) \<Rightarrow> ''.'' @ s | _ \<Rightarrow> ''.'')),
      jwt_decode = (\<lambda>token key.
        if token = key @ ''.admin''
        then Inr [''sub'' \<mapsto> PStr ''admin'', ''role'' \<mapsto> PStr ''admin'']
        else if token = key @ ''.old'' then Inl ExpiredSignatureError
        else Inl InvalidTokenError),
      isoformat = (\<lambda>t. replicate (nat t) CHR ''T''),
      fromisoformat = (\<lambda>s. if list_all (\<lambda>c. c = CHR ''T'') s then Some (int (length s)) else None),
      WarStatistic_of_doc = example_WarStatistic_of_doc,
      uuid4 = (\<lambda>n. ''uuid-'' @ replicate n CHR ''x''),
      utcnow = (\<lambda>n. 5 + int n),
      ObjectId = (\<lambda>n. n)\<rparr>"

definition good_auth :: bearer where
  "good_auth = Inr \<lparr>scheme = ''Bearer'', credentials = ''secret.admin''\<rparr>"

definition forged_auth :: bearer where
  "forged_auth = Inr \<lparr>scheme = ''Bearer'', credentials = ''forged''\<rparr>"

definition example_war :: "string \<Rightarrow> int \<Rightarrow> document" where
  "example_war i w =
     [''_id'' \<mapsto> PObjectId 7, ''id'' \<mapsto> PStr i, ''opponent'' \<mapsto> PStr ''Spain'',
      ''wins'' \<mapsto> PInt w, ''losses'' \<mapsto> PInt 1, ''order'' \<mapsto> PInt 7]"

definition example_testimonial :: "string \<Rightarrow> bool \<Rightarrow> document" where
  "example_testimonial i approved =
     [''_id'' \<mapsto> PObjectId 9, ''id'' \<mapsto> PStr i, ''author_name'' \<mapsto> PStr ''Ana'',
      ''content'' \<mapsto> PStr ''Boa'', ''approved'' \<mapsto> PBool approved,
      ''created_at'' \<mapsto> PStr ''TTT'']"

definition example_image :: "string \<Rightarrow> document" where
  "example_image i =
     [''_id'' \<mapsto> PObjectId 3, ''id'' \<mapsto> PStr i, ''image_url'' \<mapsto> PStr ''a.png'',
      ''created_at'' \<mapsto> PStr ''TT'']"

definition example_db :: database where
  "example_db =
     \<lparr>leaders = [],
      wars = [example_war ''a'' 1, example_war ''b'' 2],
      gallery = [example_image ''g''],
      testimonials = [example_testimonial ''t'' False, example_testimonial ''u'' True]\<rparr>"

definition example_patch :: WarStatisticUpdate where
  "example_patch = \<lparr>wu_opponent = None, wu_wins = Some 5, wu_losses = None, wu_order = None\<rparr>"


definition example_new_war :: WarStatisticCreate where
  "example_new_war = \<lparr>wc_opponent = ''Spain'', wc_wins = 3, wc_losses = 1, wc_order = 7\<rparr>"


text \<open>
  \<open>listing_of ordered c ds\<close>: \<open>ds\<close> is the first 100 (all, when there are no more) of the
  documents of \<open>c\<close> without their \<^verbatim>\<open>_id\<close>, in an arrangement of them that is \<open>ordered\<close>.
\<close>

definition listing_of :: "(document list \<Rightarrow> bool) \<Rightarrow> document list \<Rightarrow> document list \<Rightarrow> bool" where
  "listing_of ordered c ds =
     ((\<exists>rest. ordered (ds @ rest) \<and> mset (ds @ rest) = mset (map (project [''_id'']) c)) \<and>
      length ds = min 100 (length c))"

text \<open>The testimonials the query of \<open>get_testimonials\<close> selects.\<close>

definition selected :: "bool \<Rightarrow> document list \<Rightarrow> document list" where
  "selected approved_only c =
     (if approved_only then filter (\<lambda>d. d ''approved'' = Some (PBool True)) c else c)"

text \<open>A store with 101 approved testimonials, their ids \<^verbatim>\<open>t\<close>, \<^verbatim>\<open>tx\<close>, \<^verbatim>\<open>txx\<close>, ...\<close>

definition crowded_db :: database where
  "crowded_db =
     empty_db\<lparr>testimonials :=
       map (\<lambda>n. example_testimonial (''t'' @ replicate n CHR ''x'') True) [0..<101]\<rparr>"

section \<open>Lemmas about the store operations\<close>

lemma matches_id: "matches [(''id'', PStr i)] d = has_id i d"
  by (simp add: matches_def has_id_def)

lemma matches_empty: "matches [] d"
  by (simp add: matches_def)

lemma matches_field: "matches [(k, v)] d \<longleftrightarrow> d k = Some v"
  by (simp add: matches_def)

lemma delete_first_none: "\<not> list_ex P c \<Longrightarrow> delete_first P c = c"
  by (induction c) auto

lemma delete_first_split:
  "\<not> list_ex P xs \<Longrightarrow> P d \<Longrightarrow> delete_first P (xs @ d # ys) = xs @ ys"
  by (induction xs) auto

lemma update_first_none: "\<not> list_ex P c \<Longrightarrow> update_first P f c = c"
  by (induction c) auto

lemma update_first_split:
  "\<not> list_ex P xs \<Longrightarrow> P d \<Longrightarrow> update_first P f (xs @ d # ys) = xs @ f d # ys"
  by (induction xs) auto



lemma first_match_exists:
  assumes "list_ex P c"
  shows "\<exists>xs d ys. c = xs @ d # ys \<and> P d \<and> \<not> list_ex P xs"
proof -
  from assms have "\<exists>x\<in>set c. P x"
    by (simp add: list_ex_iff)
  then obtain xs d ys where "c = xs @ d # ys" "P d" "\<forall>x\<in>set xs. \<not> P x"
    using split_list_first_prop [of c P] by blast
  then show ?thesis
    by (auto simp: list_ex_iff)
qed

lemma first_with_id_exists:
  "list_ex (has_id i) c \<Longrightarrow> \<exists>xs d ys. first_with_id i c xs d ys"
  unfolding first_with_id_def by (rule first_match_exists)

lemma first_with_id_present: "first_with_id i c xs d ys \<Longrightarrow> list_ex (has_id i) c"
  by (auto simp: first_with_id_def)

lemma delete_one_absent:
  "\<not> list_ex (has_id i) c \<Longrightarrow> delete_one [(''id'', PStr i)] c = (0, c)"
proof -
  assume a: "\<not> list_ex (has_id i) c"
  have m: "matches [(''id'', PStr i)] = has_id i"
    by (rule ext) (rule matches_id)
  show ?thesis
    using a by (simp add: delete_one_def m delete_first_none)
qed

lemma delete_one_present:
  assumes "first_with_id i c xs d ys"
  shows "delete_one [(''id'', PStr i)] c = (1, xs @ ys)"
proof -
  have m: "matches [(''id'', PStr i)] = has_id i"
    by (rule ext) (rule matches_id)
  from assms have c: "c = xs @ d # ys" and d: "has_id i d" and xs: "\<not> list_ex (has_id i) xs"
    by (simp_all add: first_with_id_def)
  have "delete_first (has_id i) (xs @ d # ys) = xs @ ys"
    using xs d delete_first_split [of "has_id i" xs d ys] by blast
  moreover have "list_ex (has_id i) (xs @ d # ys)"
    using d by simp
  ultimately show ?thesis
    by (simp add: delete_one_def m c)
qed

lemma update_one_absent:
  "\<not> list_ex (has_id i) c \<Longrightarrow> update_one [(''id'', PStr i)] u c = (0, c)"
proof -
  assume a: "\<not> list_ex (has_id i) c"
  have m: "matches [(''id'', PStr i)] = has_id i"
    by (rule ext) (rule matches_id)
  show ?thesis
    using a by (simp add: update_one_def m update_first_none)
qed

lemma update_one_present:
  assumes "first_with_id i c xs d ys"
  shows "update_one [(''id'', PStr i)] u c = (1, xs @ set_fields u d # ys)"
proof -
  have m: "matches [(''id'', PStr i)] = has_id i"
    by (rule ext) (rule matches_id)
  from assms have c: "c = xs @ d # ys" and d: "has_id i d" and xs: "\<not> list_ex (has_id i) xs"
    by (simp_all add: first_with_id_def)
  have "update_first (has_id i) (set_fields u) (xs @ d # ys) = xs @ set_fields u d # ys"
    using xs d update_first_split [of "has_id i" xs d "set_fields u" ys] by blast
  moreover have "list_ex (has_id i) (xs @ d # ys)"
    using d by simp
  ultimately show ?thesis
    by (simp add: update_one_def m c)
qed



lemma count_all: "count_documents [] c = length c"
proof -
  have "matches [] = (\<lambda>d. True)"
    by (rule ext) (simp add: matches_def)
  then show ?thesis
    by (simp add: count_documents_def)
qed

lemma count_field: "count_documents [(k, v)] c = length (filter (\<lambda>d. d k = Some v) c)"
proof -
  have "matches [(k, v)] = (\<lambda>d. d k = Some v)"
    by (rule ext) (simp add: matches_def)
  then show ?thesis
    by (simp add: count_documents_def)
qed

lemma with_token_Inl:
  "Depends_verify_token E auth = Inl e \<Longrightarrow> with_token E auth db body = (Inl e, db)"
  by (simp add: with_token_def)

lemma with_token_Inr:
  "Depends_verify_token E auth = Inr token \<Longrightarrow> with_token E auth db body = body token"
  by (simp add: with_token_def)

lemma good_auth_ok:
  "Depends_verify_token example_env good_auth =
     Inr [''sub'' \<mapsto> PStr ''admin'', ''role'' \<mapsto> PStr ''admin'']"
  by (simp add: Depends_verify_token_def verify_token_def good_auth_def example_env_def)

lemma forged_auth_fails:
  "Depends_verify_token example_env forged_auth = Inl (HTTPException 401 ''Invalid token'')"
  by (simp add: Depends_verify_token_def verify_token_def forged_auth_def example_env_def)

lemma example_db_ids:
  "\<not> list_ex (has_id ''zz'') (wars example_db)"
  "\<not> list_ex (has_id ''zz'') (gallery example_db)"
  "\<not> list_ex (has_id ''zz'') (testimonials example_db)"
  "list_ex (has_id ''b'') (wars example_db)"
  "list_ex (has_id ''g'') (gallery example_db)"
  "list_ex (has_id ''u'') (testimonials example_db)"
  "list_ex (has_id ''t'') (testimonials example_db)"
  by (simp_all add: example_db_def has_id_def example_war_def example_image_def
      example_testimonial_def)

section \<open>Lemmas about the bootstrap\<close>

lemma initialize_data_nonempty:
  "leaders db \<noteq> [] \<Longrightarrow> initialize_data E db = (''Database already initialized'', db)"
  by (simp add: initialize_data_def count_all)

lemma initialize_data_empty:
  "leaders db = [] \<Longrightarrow>
   initialize_data E db =
     (''Database initialized successfully'',
      db\<lparr>leaders := map2 with_object_id (map (ObjectId E) [0..<3]) (seed_leaders E),
         wars := wars db @ map2 with_object_id (map (ObjectId E) [3..<9]) (seed_wars E),
         gallery := gallery db @ map2 with_object_id (map (ObjectId E) [9..<13]) (seed_gallery E)\<rparr>)"
  by (simp add: initialize_data_def count_all insert_many_def)

lemma seeded_lengths:
  "length (map2 with_object_id (map (ObjectId E) [0..<3]) (seed_leaders E)) = 3"
  "length (map2 with_object_id (map (ObjectId E) [3..<9]) (seed_wars E)) = 6"
  "length (map2 with_object_id (map (ObjectId E) [9..<13]) (seed_gallery E)) = 4"
  by (simp_all add: seed_leaders_def seed_wars_def seed_gallery_def)

lemma initialize_data_leaders_nonempty:
  "leaders (snd (initialize_data E db)) = [] \<Longrightarrow> False"
proof (cases "leaders db = []")
  case True
  assume "leaders (snd (initialize_data E db)) = []"
  with True have "map2 with_object_id (map (ObjectId E) [0..<3]) (seed_leaders E) = []"
    by (simp add: initialize_data_empty)
  then have "length (map2 with_object_id (map (ObjectId E) [0..<3]) (seed_leaders E)) = 0"
    by (simp only: list.size)
  then show False
    by (simp only: seeded_lengths)
next
  case False
  assume "leaders (snd (initialize_data E db)) = []"
  with False show False
    by (simp add: initialize_data_nonempty)
qed

lemma initialize_data_empty_db:
  "fst (initialize_data E empty_db) = ''Database initialized successfully''"
  "length (leaders (snd (initialize_data E empty_db))) = 3"
  "length (wars (snd (initialize_data E empty_db))) = 6"
  "length (gallery (snd (initialize_data E empty_db))) = 4"
  "testimonials (snd (initialize_data E empty_db)) = []"
proof -
  have e: "leaders empty_db = []"
    by (simp add: empty_db_def)
  show "fst (initialize_data E empty_db) = ''Database initialized successfully''"
    by (simp only: initialize_data_empty [OF e] fst_conv)
  show "length (leaders (snd (initialize_data E empty_db))) = 3"
    by (simp only: initialize_data_empty [OF e] snd_conv) (simp add: seed_leaders_def)
  show "length (wars (snd (initialize_data E empty_db))) = 6"
    by (simp only: initialize_data_empty [OF e] snd_conv) (simp add: seed_wars_def empty_db_def)
  show "length (gallery (snd (initialize_data E empty_db))) = 4"
    by (simp only: initialize_data_empty [OF e] snd_conv)
       (simp add: seed_gallery_def empty_db_def)
  show "testimonials (snd (initialize_data E empty_db)) = []"
    by (simp only: initialize_data_empty [OF e] snd_conv) (simp add: empty_db_def)
qed

section \<open>Lemmas about listings\<close>

lemma project_id_None: "project [''_id''] d ''_id'' = None"
  by (simp add: project_def)

lemma project_other: "k \<noteq> ''_id'' \<Longrightarrow> project [''_id''] d k = d k"
  by (simp add: project_def)

lemma find_no_id: "x \<in> set (mongo_find q [''_id''] c) \<Longrightarrow> x ''_id'' = None"
  by (auto simp: mongo_find_def project_id_None)

lemma sorted_page:
  fixes c :: "document list" and field :: string and q :: query and s :: "document list"
  assumes mset_s: "mset s = mset (mongo_find q [''_id''] c)" and ord: "ordered s"
  shows "listing_of ordered (filter (matches q) c) (to_list 100 s)"
    and "\<forall>d\<in>set (to_list 100 s). d ''_id'' = None"
proof -
  have "to_list 100 s @ drop 100 s = s"
    by (simp add: to_list_def)
  moreover have m: "mset s = mset (map (project [''_id'']) (filter (matches q) c))"
    using mset_s by (simp add: mongo_find_def)
  ultimately have "\<exists>rest. ordered (to_list 100 s @ rest) \<and>
      mset (to_list 100 s @ rest) = mset (map (project [''_id'']) (filter (matches q) c))"
    using ord by metis
  moreover have "length s = length (filter (matches q) c)"
    using m by (metis length_map size_mset)
  then have "length (to_list 100 s) = min 100 (length (filter (matches q) c))"
    by (simp add: to_list_def min.commute)
  ultimately show "listing_of ordered (filter (matches q) c) (to_list 100 s)"
    by (simp add: listing_of_def)
  have "set (to_list 100 s) \<subseteq> set s"
    by (simp add: to_list_def set_take_subset)
  also have "\<dots> = set (mongo_find q [''_id''] c)"
    using mset_s by (rule mset_eq_setD)
  finally show "\<forall>d\<in>set (to_list 100 s). d ''_id'' = None"
    using find_no_id by blast
qed

lemma mongo_sort_asc:
  "mset (mongo_sort field 1 c) = mset c" "ascending_by field (mongo_sort field 1 c)"
  by (simp_all add: mongo_sort_def ascending_by_def)

lemma mongo_sort_desc:
  "mset (mongo_sort field (- 1) c) = mset c" "descending_by field (mongo_sort field (- 1) c)"
  by (simp_all add: mongo_sort_def descending_by_def rev_map)

lemma listing_asc:
  "listing_of (ascending_by field) (filter (matches q) c)
     (to_list 100 (mongo_sort field 1 (mongo_find q [''_id''] c)))"
  "\<forall>d\<in>set (to_list 100 (mongo_sort field 1 (mongo_find q [''_id''] c))). d ''_id'' = None"
  using sorted_page [of "mongo_sort field 1 (mongo_find q [''_id''] c)" q c "ascending_by field"]
    mongo_sort_asc [of field "mongo_find q [''_id''] c"]
  by blast+

lemma listing_desc:
  "listing_of (descending_by field) (filter (matches q) c)
     (to_list 100 (mongo_sort field (- 1) (mongo_find q [''_id''] c)))"
  "\<forall>d\<in>set (to_list 100 (mongo_sort field (- 1) (mongo_find q [''_id''] c))). d ''_id'' = None"
  using sorted_page [of "mongo_sort field (- 1) (mongo_find q [''_id''] c)" q c "descending_by field"]
    mongo_sort_desc [of field "mongo_find q [''_id''] c"]
  by blast+

lemma filter_matches_all: "filter (matches []) c = c"
proof -
  have "matches [] = (\<lambda>d. True)"
    by (rule ext) (simp add: matches_def)
  then show ?thesis by simp
qed

lemma filter_matches_approved:
  "filter (matches [(''approved'', PBool True)]) c =
     filter (\<lambda>d. d ''approved'' = Some (PBool True)) c"
proof -
  have "matches [(''approved'', PBool True)] = (\<lambda>d. d ''approved'' = Some (PBool True))"
    by (rule ext) (simp add: matches_def)
  then show ?thesis by simp
qed

lemma filter_matches_query:
  "filter (matches (if approved_only then [(''approved'', PBool True)] else [])) c =
     selected approved_only c"
  by (simp add: selected_def filter_matches_all filter_matches_approved)

lemma listing_of_all:
  assumes "listing_of ordered c ds" and "length c \<le> 100"
  shows "mset ds = mset (map (project [''_id'']) c)"
proof -
  from assms(1) obtain rest where
    m: "mset (ds @ rest) = mset (map (project [''_id'']) c)" and len: "length ds = min 100 (length c)"
    by (auto simp: listing_of_def)
  from m have "length (ds @ rest) = length c"
    by (metis length_map size_mset)
  with len assms(2) have "rest = []"
    by simp
  with m show ?thesis
    by simp
qed

lemma for_each_Inr_iff: "for_each f xs = Inr ys \<longleftrightarrow> map f xs = map Inr ys"
proof (induction xs arbitrary: ys)
  case Nil
  then show ?case by auto
next
  case (Cons x xs)
  show ?case
  proof (cases "f x")
    case (Inl e)
    then show ?thesis by (cases ys) auto
  next
    case (Inr y)
    then show ?thesis
      using Cons.IH by (cases ys; cases "for_each f xs") auto
  qed
qed

lemma for_each_total:
  "\<forall>x\<in>set xs. \<exists>y. f x = Inr y \<Longrightarrow> \<exists>ys. for_each f xs = Inr ys"
  by (induction xs) (auto split: sum.splits)

lemma for_each_error:
  "for_each f xs = Inl e \<Longrightarrow> \<exists>x\<in>set xs. f x = Inl e"
  by (induction xs) (auto split: sum.splits)

lemma parse_created_at_other:
  "parse_created_at E c = Inr d \<Longrightarrow> k \<noteq> ''created_at'' \<Longrightarrow> d k = c k"
  by (auto simp: parse_created_at_def split: option.splits val.splits)

lemma parse_created_at_total:
  "(\<forall>s. c ''created_at'' = Some (PStr s) \<longrightarrow> fromisoformat E s \<noteq> None) \<Longrightarrow>
   \<exists>d. parse_created_at E c = Inr d"
  by (auto simp: parse_created_at_def split: option.splits val.splits)

lemma parse_created_at_error: "parse_created_at E c = Inl e \<Longrightarrow> e = ValueError"
  by (auto simp: parse_created_at_def split: option.splits val.splits)

lemma parsed_keep:
  assumes "map (parse_created_at E) cs = map Inr ds" and "k \<noteq> ''created_at''"
    and "\<forall>c\<in>set cs. c k = v"
  shows "\<forall>d\<in>set ds. d k = v"
proof
  fix d assume "d \<in> set ds"
  then obtain j where j: "j < length ds" "ds ! j = d"
    by (auto simp: in_set_conv_nth)
  from assms(1) have len: "length cs = length ds"
    by (metis length_map)
  from assms(1) have "map (parse_created_at E) cs ! j = map Inr ds ! j"
    by simp
  with j len have "parse_created_at E (cs ! j) = Inr d"
    by simp
  then have "d k = (cs ! j) k"
    using assms(2) by (rule parse_created_at_other)
  moreover have "cs ! j \<in> set cs"
    using j len by simp
  ultimately show "d k = v"
    using assms(3) by simp
qed

lemma page_parses:
  fixes c :: "document list"
  assumes "\<forall>d\<in>set c. \<forall>s. d ''created_at'' = Some (PStr s) \<longrightarrow> fromisoformat E s \<noteq> None"
  shows "\<exists>ds. for_each (parse_created_at E)
      (to_list 100 (mongo_sort field direction (mongo_find q [''_id''] c))) = Inr ds"
proof (rule for_each_total, rule ballI)
  fix x assume "x \<in> set (to_list 100 (mongo_sort field direction (mongo_find q [''_id''] c)))"
  then have "x \<in> set (mongo_sort field direction (mongo_find q [''_id''] c))"
    unfolding to_list_def by (rule in_set_takeD)
  then have "x \<in> set (mongo_find q [''_id''] c)"
    by (simp add: mongo_sort_def split: if_splits)
  then obtain d where d: "d \<in> set c" and x: "x = project [''_id''] d"
    by (auto simp: mongo_find_def)
  have "x ''created_at'' = d ''created_at''"
    by (simp add: x project_other)
  with assms d have "\<forall>s. x ''created_at'' = Some (PStr s) \<longrightarrow> fromisoformat E s \<noteq> None"
    by simp
  then show "\<exists>y. parse_created_at E x = Inr y"
    by (rule parse_created_at_total)
qed

section \<open>Lemmas about the token gate\<close>

lemma Depends_verify_token_Inr_iff:
  "Depends_verify_token E auth = Inr payload \<longleftrightarrow>
     (\<exists>creds. auth = Inr creds \<and> jwt_decode E (credentials creds) (JWT_SECRET E) = Inr payload)"
  by (auto simp: Depends_verify_token_def verify_token_def split: sum.splits jwt_error.splits)

lemma Depends_verify_token_401:
  "Depends_verify_token E (Inr creds) = Inl e \<Longrightarrow>
   e = HTTPException 401 ''Token expired'' \<or> e = HTTPException 401 ''Invalid token''"
  by (auto simp: Depends_verify_token_def verify_token_def split: sum.splits jwt_error.splits)

lemma gated_routes_fail:
  assumes "Depends_verify_token E auth = Inl e"
  shows "create_war E auth war_data db = (Inl e, db)"
    and "update_war E auth war_id patch db = (Inl e, db)"
    and "delete_war E auth war_id db = (Inl e, db)"
    and "add_gallery_image E auth image_data db = (Inl e, db)"
    and "delete_gallery_image E auth image_id db = (Inl e, db)"
    and "approve_testimonial E auth testimonial_id db = (Inl e, db)"
    and "delete_testimonial E auth testimonial_id db = (Inl e, db)"
  using assms
  by (simp_all add: create_war_def update_war_def delete_war_def add_gallery_image_def
      delete_gallery_image_def approve_testimonial_def delete_testimonial_def with_token_Inl)

section \<open>Lemmas about the partial update\<close>







section \<open>Lemmas about deletion\<close>

lemma delete_war_absent:
  assumes "Depends_verify_token E auth = Inr token" and "\<not> list_ex (has_id i) (wars db)"
  shows "delete_war E auth i db = (Inl (HTTPException 404 ''War not found''), db)"
  using assms by (simp add: delete_war_def with_token_Inr delete_one_absent)

lemma delete_war_present:
  assumes "Depends_verify_token E auth = Inr token" and "first_with_id i (wars db) xs d ys"
  shows "delete_war E auth i db = (Inr ''War deleted successfully'', db\<lparr>wars := xs @ ys\<rparr>)"
  using assms by (simp add: delete_war_def with_token_Inr delete_one_present)

lemma delete_gallery_image_absent:
  assumes "Depends_verify_token E auth = Inr token" and "\<not> list_ex (has_id i) (gallery db)"
  shows "delete_gallery_image E auth i db = (Inl (HTTPException 404 ''Image not found''), db)"
  using assms by (simp add: delete_gallery_image_def with_token_Inr delete_one_absent)

lemma delete_gallery_image_present:
  assumes "Depends_verify_token E auth = Inr token" and "first_with_id i (gallery db) xs d ys"
  shows "delete_gallery_image E auth i db =
    (Inr ''Image deleted successfully'', db\<lparr>gallery := xs @ ys\<rparr>)"
  using assms by (simp add: delete_gallery_image_def with_token_Inr delete_one_present)

lemma delete_testimonial_absent:
  assumes "Depends_verify_token E auth = Inr token" and "\<not> list_ex (has_id i) (testimonials db)"
  shows "delete_testimonial E auth i db = (Inl (HTTPException 404 ''Testimonial not found''), db)"
  using assms by (simp add: delete_testimonial_def with_token_Inr delete_one_absent)

lemma delete_testimonial_present:
  assumes "Depends_verify_token E auth = Inr token" and "first_with_id i (testimonials db) xs d ys"
  shows "delete_testimonial E auth i db =
    (Inr ''Testimonial deleted successfully'', db\<lparr>testimonials := xs @ ys\<rparr>)"
  using assms by (simp add: delete_testimonial_def with_token_Inr delete_one_present)

section \<open>Lemmas about creating a testimonial\<close>

lemma create_testimonial_result:
  "create_testimonial E td db =
     (\<lparr>t_id = uuid4 E 0, t_author_name = tc_author_name td, t_content = tc_content td,
       t_approved = False, t_created_at = utcnow E 0\<rparr>,
      db\<lparr>testimonials := testimonials db @
        [[''id'' \<mapsto> PStr (uuid4 E 0), ''author_name'' \<mapsto> optional_str (tc_author_name td),
          ''content'' \<mapsto> PStr (tc_content td), ''approved'' \<mapsto> PBool False,
          ''created_at'' \<mapsto> PStr (isoformat E (utcnow E 0)),
          ''_id'' \<mapsto> PObjectId (ObjectId E 0)]]\<rparr>)"
  by (simp add: create_testimonial_def Testimonial_model_dump_def isoformat_created_at_def
      insert_one_def with_object_id_def Let_def)

section \<open>Lemmas about the list routes\<close>

lemma get_leaders_listing:
  "listing_of (ascending_by ''order'') (leaders db) (get_leaders db)"
  "\<forall>d\<in>set (get_leaders db). d ''_id'' = None"
  using listing_asc [of "''order''" "[]" "leaders db"]
  by (simp_all add: get_leaders_def filter_matches_all)

lemma get_wars_listing:
  "listing_of (ascending_by ''order'') (wars db) (get_wars db)"
  "\<forall>d\<in>set (get_wars db). d ''_id'' = None"
  using listing_asc [of "''order''" "[]" "wars db"]
  by (simp_all add: get_wars_def filter_matches_all)

lemma get_gallery_listing:
  assumes "get_gallery E db = Inr ds"
  shows "\<exists>cs. listing_of (descending_by ''created_at'') (gallery db) cs \<and>
           map (parse_created_at E) cs = map Inr ds"
    and "\<forall>d\<in>set ds. d ''_id'' = None"
proof -
  let ?cs = "to_list 100 (mongo_sort ''created_at'' (- 1) (mongo_find [] [''_id''] (gallery db)))"
  have parsed: "map (parse_created_at E) ?cs = map Inr ds"
    using assms by (simp add: get_gallery_def for_each_Inr_iff)
  have page: "listing_of (descending_by ''created_at'') (gallery db) ?cs"
    using listing_desc(1) [of "''created_at''" "[]" "gallery db"]
    by (simp add: filter_matches_all)
  from page parsed show "\<exists>cs. listing_of (descending_by ''created_at'') (gallery db) cs \<and>
           map (parse_created_at E) cs = map Inr ds"
    by blast
  have "\<forall>c\<in>set ?cs. c ''_id'' = None"
    by (rule listing_desc(2))
  with parsed show "\<forall>d\<in>set ds. d ''_id'' = None"
    by (intro parsed_keep [of E ?cs ds "''_id''" None]) simp_all
qed

lemma get_testimonials_listing:
  assumes "get_testimonials E approved_only db = Inr ds"
  shows "\<exists>cs. listing_of (descending_by ''created_at'')
             (selected approved_only (testimonials db)) cs \<and>
           map (parse_created_at E) cs = map Inr ds"
    and "\<forall>d\<in>set ds. d ''_id'' = None"
proof -
  let ?q = "if approved_only then [(''approved'', PBool True)] else []"
  let ?cs = "to_list 100
      (mongo_sort ''created_at'' (- 1) (mongo_find ?q [''_id''] (testimonials db)))"
  have parsed: "map (parse_created_at E) ?cs = map Inr ds"
    using assms by (simp add: get_testimonials_def for_each_Inr_iff)
  have page: "listing_of (descending_by ''created_at'')
      (selected approved_only (testimonials db)) ?cs"
    using listing_desc(1) [of "''created_at''" ?q "testimonials db"]
    by (simp only: filter_matches_query)
  from page parsed show "\<exists>cs. listing_of (descending_by ''created_at'')
             (selected approved_only (testimonials db)) cs \<and>
           map (parse_created_at E) cs = map Inr ds"
    by blast
  have "\<forall>c\<in>set ?cs. c ''_id'' = None"
    by (rule listing_desc(2))
  with parsed show "\<forall>d\<in>set ds. d ''_id'' = None"
    by (intro parsed_keep [of E ?cs ds "''_id''" None]) simp_all
qed

lemma get_gallery_total:
  assumes "\<forall>d\<in>set (gallery db). \<forall>s. d ''created_at'' = Some (PStr s) \<longrightarrow> fromisoformat E s \<noteq> None"
  shows "\<exists>ds. get_gallery E db = Inr ds"
  unfolding get_gallery_def Let_def using assms by (rule page_parses)

lemma get_testimonials_total:
  assumes "\<forall>d\<in>set (testimonials db). \<forall>s. d ''created_at'' = Some (PStr s) \<longrightarrow>
      fromisoformat E s \<noteq> None"
  shows "\<exists>ds. get_testimonials E approved_only db = Inr ds"
  unfolding get_testimonials_def Let_def using assms by (rule page_parses)

lemma listing_errors:
  "get_gallery E db = Inl e \<Longrightarrow> e = ValueError"
  "get_testimonials E approved_only db = Inl e \<Longrightarrow> e = ValueError"
  by (auto simp: get_gallery_def get_testimonials_def Let_def
      dest!: for_each_error parse_created_at_error)

lemma example_db_parses:
  "\<forall>d\<in>set (gallery example_db). \<forall>s. d ''created_at'' = Some (PStr s) \<longrightarrow>
     fromisoformat example_env s \<noteq> None"
  "\<forall>d\<in>set (testimonials example_db). \<forall>s. d ''created_at'' = Some (PStr s) \<longrightarrow>
     fromisoformat example_env s \<noteq> None"
  by (simp_all add: example_db_def example_image_def example_testimonial_def example_env_def)

section \<open>Lemmas about moderation\<close>

lemma set_fields_approved:
  "set_fields [(''approved'', PBool True)] d = d(''approved'' \<mapsto> PBool True)"
  by (rule ext) (simp add: set_fields_def map_add_def)

lemma approve_testimonial_absent:
  assumes "Depends_verify_token E auth = Inr token" and "\<not> list_ex (has_id i) (testimonials db)"
  shows "approve_testimonial E auth i db =
    (Inl (HTTPException 404 ''Testimonial not found''), db)"
  using assms by (simp add: approve_testimonial_def with_token_Inr update_one_absent)

lemma approve_testimonial_present:
  assumes "Depends_verify_token E auth = Inr token" and "first_with_id i (testimonials db) xs d ys"
  shows "approve_testimonial E auth i db =
    (Inr ''Testimonial approved'', db\<lparr>testimonials := xs @ d(''approved'' \<mapsto> PBool True) # ys\<rparr>)"
  using assms
  by (simp add: approve_testimonial_def with_token_Inr update_one_present set_fields_approved)

lemma listing_of_members:
  assumes "listing_of ordered c cs" and "x \<in> set cs"
  shows "\<exists>d\<in>set c. x = project [''_id''] d"
proof -
  from assms(1) obtain rest where "mset (cs @ rest) = mset (map (project [''_id'']) c)"
    by (auto simp: listing_of_def)
  then have "set (cs @ rest) = set (map (project [''_id'']) c)"
    by (rule mset_eq_setD)
  with assms(2) show ?thesis
    by auto
qed

lemma default_listing_approved:
  assumes "get_testimonials E True db = Inr ds"
  shows "\<forall>d\<in>set ds. d ''approved'' = Some (PBool True)"
proof -
  from assms obtain cs where
    page: "listing_of (descending_by ''created_at'') (selected True (testimonials db)) cs"
    and parsed: "map (parse_created_at E) cs = map Inr ds"
    using get_testimonials_listing(1) by blast
  have "\<forall>c\<in>set cs. c ''approved'' = Some (PBool True)"
  proof
    fix c assume "c \<in> set cs"
    with page obtain d where "d \<in> set (selected True (testimonials db))" "c = project [''_id''] d"
      using listing_of_members by blast
    then show "c ''approved'' = Some (PBool True)"
      by (simp add: selected_def project_other)
  qed
  with parsed show ?thesis
    by (intro parsed_keep [of E cs ds "''approved''" "Some (PBool True)"]) simp_all
qed

lemma full_listing_all:
  assumes "get_testimonials E False db = Inr ds"
  shows "length ds = min 100 (length (testimonials db))"
    and "length (testimonials db) \<le> 100 \<Longrightarrow>
      mset (map Inr ds) =
        mset (map (\<lambda>d. parse_created_at E (project [''_id''] d)) (testimonials db))"
proof -
  from assms obtain cs where
    page: "listing_of (descending_by ''created_at'') (testimonials db) cs"
    and parsed: "map (parse_created_at E) cs = map Inr ds"
    using get_testimonials_listing(1) [of E False db ds] by (auto simp: selected_def)
  have "length cs = length ds"
    using parsed by (metis length_map)
  with page show "length ds = min 100 (length (testimonials db))"
    by (simp add: listing_of_def)
  assume "length (testimonials db) \<le> 100"
  with page have "mset cs = mset (map (project [''_id'']) (testimonials db))"
    by (rule listing_of_all)
  then have "image_mset (parse_created_at E) (mset cs) =
      image_mset (parse_created_at E) (mset (map (project [''_id'']) (testimonials db)))"
    by simp
  then have "mset (map (parse_created_at E) cs) =
      mset (map (\<lambda>d. parse_created_at E (project [''_id''] d)) (testimonials db))"
    by (simp add: multiset.map_comp comp_def)
  with parsed show "mset (map Inr ds) =
      mset (map (\<lambda>d. parse_created_at E (project [''_id''] d)) (testimonials db))"
    by simp
qed

lemma create_testimonial_pending:
  "\<exists>doc. create_testimonial E td db =
        (\<lparr>t_id = uuid4 E 0, t_author_name = tc_author_name td, t_content = tc_content td,
          t_approved = False, t_created_at = utcnow E 0\<rparr>,
         db\<lparr>testimonials := testimonials db @ [doc]\<rparr>) \<and>
      doc ''approved'' = Some (PBool False)"
proof (intro exI conjI)
  show "create_testimonial E td db =
        (\<lparr>t_id = uuid4 E 0, t_author_name = tc_author_name td, t_content = tc_content td,
          t_approved = False, t_created_at = utcnow E 0\<rparr>,
         db\<lparr>testimonials := testimonials db @
           [[''id'' \<mapsto> PStr (uuid4 E 0), ''author_name'' \<mapsto> optional_str (tc_author_name td),
             ''content'' \<mapsto> PStr (tc_content td), ''approved'' \<mapsto> PBool False,
             ''created_at'' \<mapsto> PStr (isoformat E (utcnow E 0)),
             ''_id'' \<mapsto> PObjectId (ObjectId E 0)]]\<rparr>)"
    by (rule create_testimonial_result)
  show "[''id'' \<mapsto> PStr (uuid4 E 0), ''author_name'' \<mapsto> optional_str (tc_author_name td),
         ''content'' \<mapsto> PStr (tc_content td), ''approved'' \<mapsto> PBool False,
         ''created_at'' \<mapsto> PStr (isoformat E (utcnow E 0)),
         ''_id'' \<mapsto> PObjectId (ObjectId E 0)] ''approved'' = Some (PBool False)"
    by simp
qed

section \<open>Lemmas about the signs of wins and losses\<close>










section \<open>Lemmas about the counts\<close>

lemma approved_partition:
  "\<forall>d\<in>set c. \<exists>b. d ''approved'' = Some (PBool b) \<Longrightarrow>
   length (filter (\<lambda>d. d ''approved'' = Some (PBool False)) c) +
   length (filter (\<lambda>d. d ''approved'' = Some (PBool True)) c) = length c"
  by (induction c) auto

section \<open>The token gate\<close>

text \<open>
  Claim C1, as the code has it. Creating, updating and deleting a war, adding and
  deleting a gallery image, and approving and deleting a testimonial are gated: unless
  the request carries bearer credentials whose token decodes under the configured
  secret (valid signature, not expired), each of them returns an error and leaves the
  store exactly as it was; when credentials were presented and did not decode the error
  is 401 (\<^verbatim>\<open>Token expired\<close> or \<^verbatim>\<open>Invalid token\<close>), and when the request carried no bearer
  credentials it is the framework's error. The bootstrap \<open>initialize_data\<close> is not
  gated: it takes no token at all.
\<close>

theorem mutations_require_token:
  assumes "\<not> (\<exists>creds payload. auth = Inr creds \<and>
      jwt_decode E (credentials creds) (JWT_SECRET E) = Inr payload)"
  shows
    "\<exists>e. create_war E auth war_data db = (Inl e, db) \<and>
       update_war E auth war_id patch db = (Inl e, db) \<and>
       delete_war E auth war_id db = (Inl e, db) \<and>
       add_gallery_image E auth image_data db = (Inl e, db) \<and>
       delete_gallery_image E auth image_id db = (Inl e, db) \<and>
       approve_testimonial E auth testimonial_id db = (Inl e, db) \<and>
       delete_testimonial E auth testimonial_id db = (Inl e, db) \<and>
       (\<forall>creds. auth = Inr creds \<longrightarrow>
          e = HTTPException 401 ''Token expired'' \<or> e = HTTPException 401 ''Invalid token'')"
proof -
  from assms have "\<not> (\<exists>payload. Depends_verify_token E auth = Inr payload)"
    by (simp add: Depends_verify_token_Inr_iff)
  then obtain e where e: "Depends_verify_token E auth = Inl e"
    by (cases "Depends_verify_token E auth") auto
  have "\<forall>creds. auth = Inr creds \<longrightarrow>
      e = HTTPException 401 ''Token expired'' \<or> e = HTTPException 401 ''Invalid token''"
    using e Depends_verify_token_401 by blast
  with gated_routes_fail [OF e] show ?thesis
    by blast
qed

lemma forged_auth_does_not_decode:
  "\<not> (\<exists>creds payload. forged_auth = Inr creds \<and>
      jwt_decode example_env (credentials creds) (JWT_SECRET example_env) = Inr payload)"
  by (simp add: forged_auth_def example_env_def)

theorem mutations_require_token_witness:
  "\<exists>e. create_war example_env forged_auth example_new_war example_db = (Inl e, example_db) \<and>
     update_war example_env forged_auth ''b'' example_patch example_db = (Inl e, example_db) \<and>
     delete_war example_env forged_auth ''b'' example_db = (Inl e, example_db) \<and>
     add_gallery_image example_env forged_auth \<lparr>gc_image_url = ''a.png''\<rparr> example_db =
       (Inl e, example_db) \<and>
     delete_gallery_image example_env forged_auth ''g'' example_db = (Inl e, example_db) \<and>
     approve_testimonial example_env forged_auth ''t'' example_db = (Inl e, example_db) \<and>
     delete_testimonial example_env forged_auth ''t'' example_db = (Inl e, example_db) \<and>
     (\<forall>creds. forged_auth = Inr creds \<longrightarrow>
        e = HTTPException 401 ''Token expired'' \<or> e = HTTPException 401 ''Invalid token'')"
  using forged_auth_does_not_decode by (rule mutations_require_token)

theorem initialize_data_without_token:
  "fst (initialize_data example_env empty_db) = ''Database initialized successfully'' \<and>
   length (leaders (snd (initialize_data example_env empty_db))) = 3 \<and>
   length (wars (snd (initialize_data example_env empty_db))) = 6 \<and>
   length (gallery (snd (initialize_data example_env empty_db))) = 4 \<and>
   snd (initialize_data example_env empty_db) \<noteq> empty_db"
proof -
  note l = initialize_data_empty_db(2) [of example_env]
  have "snd (initialize_data example_env empty_db) \<noteq> empty_db"
  proof
    assume "snd (initialize_data example_env empty_db) = empty_db"
    with l have "length (leaders empty_db) = 3" by simp
    then show False by (simp add: empty_db_def)
  qed
  with initialize_data_empty_db [of example_env] show ?thesis
    by (intro conjI)
qed

section \<open>Login\<close>

text \<open>
  Claim C2. \<open>admin_login\<close> succeeds exactly when the username and the password both
  equal the configured admin credentials. On success the access token is the encoding,
  under the configured secret, of the payload with subject the given username, role
  \<^verbatim>\<open>admin\<close> and an expiry 24 hours (86400000000 microseconds) after the time of the
  call, and the token type is \<^verbatim>\<open>bearer\<close>; on any mismatch the result is the 401 error.
\<close>

theorem admin_login_credentials:
  "(username ld = ADMIN_USERNAME E \<and> password ld = ADMIN_PASSWORD E \<longrightarrow>
      admin_login E ld =
        Inr \<lparr>access_token =
               jwt_encode E
                 [''sub'' \<mapsto> PStr (username ld), ''role'' \<mapsto> PStr ''admin'',
                  ''exp'' \<mapsto> PDatetime (utcnow E 0 + 86400000000)]
                 (JWT_SECRET E),
             token_type = ''bearer''\<rparr>) \<and>
   (\<not> (username ld = ADMIN_USERNAME E \<and> password ld = ADMIN_PASSWORD E) \<longrightarrow>
      admin_login E ld = Inl (HTTPException 401 ''Invalid credentials'')) \<and>
   ((\<exists>t. admin_login E ld = Inr t) \<longleftrightarrow>
      username ld = ADMIN_USERNAME E \<and> password ld = ADMIN_PASSWORD E)"
  by (auto simp: admin_login_def create_access_token_def timedelta_hours_def Let_def)

theorem admin_login_credentials_witness:
  "admin_login example_env \<lparr>username = ''admin'', password = ''hunter2''\<rparr> =
     Inr \<lparr>access_token =
            jwt_encode example_env
              [''sub'' \<mapsto> PStr ''admin'', ''role'' \<mapsto> PStr ''admin'',
               ''exp'' \<mapsto> PDatetime (utcnow example_env 0 + 86400000000)]
              (JWT_SECRET example_env),
          token_type = ''bearer''\<rparr> \<and>
   admin_login example_env \<lparr>username = ''admin'', password = ''hunter3''\<rparr> =
     Inl (HTTPException 401 ''Invalid credentials'')"
proof (rule conjI)
  have ok: "username \<lparr>username = ''admin'', password = ''hunter2''\<rparr> = ADMIN_USERNAME example_env \<and>
      password \<lparr>username = ''admin'', password = ''hunter2''\<rparr> = ADMIN_PASSWORD example_env"
    by (simp add: example_env_def)
  show "admin_login example_env \<lparr>username = ''admin'', password = ''hunter2''\<rparr> =
     Inr \<lparr>access_token =
            jwt_encode example_env
              [''sub'' \<mapsto> PStr ''admin'', ''role'' \<mapsto> PStr ''admin'',
               ''exp'' \<mapsto> PDatetime (utcnow example_env 0 + 86400000000)]
              (JWT_SECRET example_env),
          token_type = ''bearer''\<rparr>"
    using admin_login_credentials
      [of "\<lparr>username = ''admin'', password = ''hunter2''\<rparr>" example_env, THEN conjunct1] ok
    by simp
  have bad: "\<not> (username \<lparr>username = ''admin'', password = ''hunter3''\<rparr> = ADMIN_USERNAME example_env \<and>
      password \<lparr>username = ''admin'', password = ''hunter3''\<rparr> = ADMIN_PASSWORD example_env)"
    by (simp add: example_env_def)
  show "admin_login example_env \<lparr>username = ''admin'', password = ''hunter3''\<rparr> =
     Inl (HTTPException 401 ''Invalid credentials'')"
    using admin_login_credentials
      [of "\<lparr>username = ''admin'', password = ''hunter3''\<rparr>" example_env,
        THEN conjunct2, THEN conjunct1] bad
    by (rule mp)
qed

section \<open>Testimonials: creation, listing, approval\<close>

text \<open>
  Claim C3, as the code has it. \<open>create_testimonial\<close> appends a document whose
  \<^verbatim>\<open>approved\<close> is false and returns a record whose \<^verbatim>\<open>approved\<close> is false. Whatever the
  store, a listing with \<^verbatim>\<open>approved_only\<close> true (the default) returns only documents whose
  \<^verbatim>\<open>approved\<close> is true, and a listing with \<^verbatim>\<open>approved_only\<close> false applies no filter but
  is capped: it returns \<open>min 100 n\<close> of the \<open>n\<close> testimonials, so all of them (each
  without \<^verbatim>\<open>_id\<close> and with its \<^verbatim>\<open>created_at\<close> parsed) only when there are at most 100.
  A listing returns whenever the stored \<^verbatim>\<open>created_at\<close> strings parse.
  With a valid token, \<open>approve_testimonial\<close> sets \<^verbatim>\<open>approved\<close> to true on the first
  testimonial carrying the id and changes nothing else, and fails with 404, the store
  unchanged, when there is none.
\<close>

theorem testimonial_moderation:
  "(\<exists>doc. create_testimonial E td db =
        (\<lparr>t_id = uuid4 E 0, t_author_name = tc_author_name td, t_content = tc_content td,
          t_approved = False, t_created_at = utcnow E 0\<rparr>,
         db\<lparr>testimonials := testimonials db @ [doc]\<rparr>) \<and>
      doc ''approved'' = Some (PBool False)) \<and>
   (\<forall>ds. get_testimonials E True db = Inr ds \<longrightarrow>
      (\<forall>d\<in>set ds. d ''approved'' = Some (PBool True))) \<and>
   (\<forall>ds. get_testimonials E False db = Inr ds \<longrightarrow>
      length ds = min 100 (length (testimonials db)) \<and>
      (length (testimonials db) \<le> 100 \<longrightarrow>
         mset (map Inr ds) =
           mset (map (\<lambda>d. parse_created_at E (project [''_id''] d)) (testimonials db)))) \<and>
   ((\<forall>d\<in>set (testimonials db). \<forall>s. d ''created_at'' = Some (PStr s) \<longrightarrow>
        fromisoformat E s \<noteq> None) \<longrightarrow>
      (\<exists>ds. get_testimonials E approved_only db = Inr ds)) \<and>
   (Depends_verify_token E auth = Inr token \<longrightarrow>
      (\<not> list_ex (has_id i) (testimonials db) \<longrightarrow>
         approve_testimonial E auth i db =
           (Inl (HTTPException 404 ''Testimonial not found''), db)) \<and>
      (list_ex (has_id i) (testimonials db) \<longrightarrow>
         (\<exists>xs d ys. first_with_id i (testimonials db) xs d ys \<and>
            approve_testimonial E auth i db =
              (Inr ''Testimonial approved'',
               db\<lparr>testimonials := xs @ d(''approved'' \<mapsto> PBool True) # ys\<rparr>))))"
proof (intro conjI allI impI)
  show "\<exists>doc. create_testimonial E td db =
        (\<lparr>t_id = uuid4 E 0, t_author_name = tc_author_name td, t_content = tc_content td,
          t_approved = False, t_created_at = utcnow E 0\<rparr>,
         db\<lparr>testimonials := testimonials db @ [doc]\<rparr>) \<and>
      doc ''approved'' = Some (PBool False)"
    by (rule create_testimonial_pending)
next
  fix ds assume "get_testimonials E True db = Inr ds"
  then show "\<forall>d\<in>set ds. d ''approved'' = Some (PBool True)"
    by (rule default_listing_approved)
next
  fix ds assume "get_testimonials E False db = Inr ds"
  then show "length ds = min 100 (length (testimonials db))"
    by (rule full_listing_all)
next
  fix ds assume "get_testimonials E False db = Inr ds" and "length (testimonials db) \<le> 100"
  then show "mset (map Inr ds) =
      mset (map (\<lambda>d. parse_created_at E (project [''_id''] d)) (testimonials db))"
    by (rule full_listing_all)
next
  assume "\<forall>d\<in>set (testimonials db). \<forall>s. d ''created_at'' = Some (PStr s) \<longrightarrow>
        fromisoformat E s \<noteq> None"
  then show "\<exists>ds. get_testimonials E approved_only db = Inr ds"
    by (rule get_testimonials_total)
next
  assume "Depends_verify_token E auth = Inr token" and "\<not> list_ex (has_id i) (testimonials db)"
  then show "approve_testimonial E auth i db =
      (Inl (HTTPException 404 ''Testimonial not found''), db)"
    by (rule approve_testimonial_absent)
next
  assume tok: "Depends_verify_token E auth = Inr token"
    and "list_ex (has_id i) (testimonials db)"
  then obtain xs d ys where "first_with_id i (testimonials db) xs d ys"
    using first_with_id_exists by blast
  with tok show "\<exists>xs d ys. first_with_id i (testimonials db) xs d ys \<and>
      approve_testimonial E auth i db =
        (Inr ''Testimonial approved'',
         db\<lparr>testimonials := xs @ d(''approved'' \<mapsto> PBool True) # ys\<rparr>)"
    using approve_testimonial_present by blast
qed

theorem testimonial_moderation_witness:
  "(\<exists>doc. create_testimonial example_env \<lparr>tc_author_name = Some ''Ana'', tc_content = ''Boa''\<rparr>
        example_db =
        (\<lparr>t_id = uuid4 example_env 0,
          t_author_name = tc_author_name \<lparr>tc_author_name = Some ''Ana'', tc_content = ''Boa''\<rparr>,
          t_content = tc_content \<lparr>tc_author_name = Some ''Ana'', tc_content = ''Boa''\<rparr>,
          t_approved = False, t_created_at = utcnow example_env 0\<rparr>,
         example_db\<lparr>testimonials := testimonials example_db @ [doc]\<rparr>) \<and>
      doc ''approved'' = Some (PBool False)) \<and>
   (\<exists>ds. get_testimonials example_env True example_db = Inr ds \<and>
      (\<forall>d\<in>set ds. d ''approved'' = Some (PBool True))) \<and>
   (\<exists>ds. get_testimonials example_env False example_db = Inr ds \<and>
      length ds = min 100 (length (testimonials example_db)) \<and>
      mset (map Inr ds) =
        mset (map (\<lambda>d. parse_created_at example_env (project [''_id''] d))
          (testimonials example_db))) \<and>
   approve_testimonial example_env good_auth ''zz'' example_db =
     (Inl (HTTPException 404 ''Testimonial not found''), example_db) \<and>
   (\<exists>xs d ys. first_with_id ''t'' (testimonials example_db) xs d ys \<and>
      approve_testimonial example_env good_auth ''t'' example_db =
        (Inr ''Testimonial approved'',
         example_db\<lparr>testimonials := xs @ d(''approved'' \<mapsto> PBool True) # ys\<rparr>))"
proof -
  note absent = testimonial_moderation
    [of example_env "\<lparr>tc_author_name = Some ''Ana'', tc_content = ''Boa''\<rparr>" example_db
      True good_auth "[''sub'' \<mapsto> PStr ''admin'', ''role'' \<mapsto> PStr ''admin'']" "''zz''"]
  note present = testimonial_moderation
    [of example_env "\<lparr>tc_author_name = Some ''Ana'', tc_content = ''Boa''\<rparr>" example_db
      True good_auth "[''sub'' \<mapsto> PStr ''admin'', ''role'' \<mapsto> PStr ''admin'']" "''t''"]
  note r1 = present [THEN conjunct2]
  note r2 = r1 [THEN conjunct2]
  note r3 = r2 [THEN conjunct2]
  note r4 = r3 [THEN conjunct2]
  note a = present [THEN conjunct1]
  have "\<exists>ds. get_testimonials example_env True example_db = Inr ds"
    using r3 [THEN conjunct1] example_db_parses(2) by (rule mp)
  then obtain ds where ds: "get_testimonials example_env True example_db = Inr ds" ..
  have "\<forall>d\<in>set ds. d ''approved'' = Some (PBool True)"
    using r1 [THEN conjunct1, THEN spec, of ds] ds by (rule mp)
  with ds have b: "\<exists>ds. get_testimonials example_env True example_db = Inr ds \<and>
      (\<forall>d\<in>set ds. d ''approved'' = Some (PBool True))"
    by (intro exI [of _ ds]) (rule conjI)
  obtain fs where fs: "get_testimonials example_env False example_db = Inr fs"
    using get_testimonials_total [OF example_db_parses(2)] by blast
  have few: "length (testimonials example_db) \<le> 100"
    by (simp add: example_db_def)
  have full: "length fs = min 100 (length (testimonials example_db)) \<and>
      (length (testimonials example_db) \<le> 100 \<longrightarrow>
         mset (map Inr fs) =
           mset (map (\<lambda>d. parse_created_at example_env (project [''_id''] d))
             (testimonials example_db)))"
    using r2 [THEN conjunct1, THEN spec, of fs] fs by (rule mp)
  have "mset (map Inr fs) =
      mset (map (\<lambda>d. parse_created_at example_env (project [''_id''] d))
        (testimonials example_db))"
    using full [THEN conjunct2] few by (rule mp)
  with fs full [THEN conjunct1] have c: "\<exists>ds. get_testimonials example_env False example_db = Inr ds \<and>
      length ds = min 100 (length (testimonials example_db)) \<and>
      mset (map Inr ds) =
        mset (map (\<lambda>d. parse_created_at example_env (project [''_id''] d))
          (testimonials example_db))"
    by (intro exI [of _ fs]) (intro conjI)
  have gate_absent: "(\<not> list_ex (has_id ''zz'') (testimonials example_db) \<longrightarrow>
         approve_testimonial example_env good_auth ''zz'' example_db =
           (Inl (HTTPException 404 ''Testimonial not found''), example_db)) \<and>
      (list_ex (has_id ''zz'') (testimonials example_db) \<longrightarrow>
         (\<exists>xs d ys. first_with_id ''zz'' (testimonials example_db) xs d ys \<and>
            approve_testimonial example_env good_auth ''zz'' example_db =
              (Inr ''Testimonial approved'',
               example_db\<lparr>testimonials := xs @ d(''approved'' \<mapsto> PBool True) # ys\<rparr>)))"
    using absent [THEN conjunct2, THEN conjunct2, THEN conjunct2, THEN conjunct2] good_auth_ok
    by (rule mp)
  have d: "approve_testimonial example_env good_auth ''zz'' example_db =
     (Inl (HTTPException 404 ''Testimonial not found''), example_db)"
    using gate_absent [THEN conjunct1] example_db_ids(3) by (rule mp)
  have gate_present: "(\<not> list_ex (has_id ''t'') (testimonials example_db) \<longrightarrow>
         approve_testimonial example_env good_auth ''t'' example_db =
           (Inl (HTTPException 404 ''Testimonial not found''), example_db)) \<and>
      (list_ex (has_id ''t'') (testimonials example_db) \<longrightarrow>
         (\<exists>xs d ys. first_with_id ''t'' (testimonials example_db) xs d ys \<and>
            approve_testimonial example_env good_auth ''t'' example_db =
              (Inr ''Testimonial approved'',
               example_db\<lparr>testimonials := xs @ d(''approved'' \<mapsto> PBool True) # ys\<rparr>)))"
    using r4 good_auth_ok by (rule mp)
  have e: "\<exists>xs d ys. first_with_id ''t'' (testimonials example_db) xs d ys \<and>
      approve_testimonial example_env good_auth ''t'' example_db =
        (Inr ''Testimonial approved'',
         example_db\<lparr>testimonials := xs @ d(''approved'' \<mapsto> PBool True) # ys\<rparr>)"
    using gate_present [THEN conjunct2] example_db_ids(7) by (rule mp)
  from a b c d e show ?thesis
    by (intro conjI)
qed

lemma crowded_db_parses:
  "\<forall>d\<in>set (testimonials crowded_db). \<forall>s. d ''created_at'' = Some (PStr s) \<longrightarrow>
     fromisoformat example_env s \<noteq> None"
  by (auto simp: crowded_db_def example_testimonial_def example_env_def)

theorem full_listing_is_capped:
  "\<exists>ds. get_testimonials example_env False crowded_db = Inr ds \<and> length ds = 100 \<and>
     length (testimonials crowded_db) = 101"
proof -
  obtain ds where ds: "get_testimonials example_env False crowded_db = Inr ds"
    using get_testimonials_total [OF crowded_db_parses] by blast
  have n: "length (testimonials crowded_db) = 101"
    by (simp add: crowded_db_def)
  have "length ds = min 100 (length (testimonials crowded_db))"
    using ds by (rule full_listing_all)
  with n have "length ds = 100"
    by simp
  with ds n show ?thesis
    by (intro exI [of _ ds]) (intro conjI)
qed

section \<open>Partial update of a war record\<close>



lemma update_war_example:
  "fst (update_war example_env good_auth ''b'' example_patch example_db) =
     Inr \<lparr>ws_id = ''b'', ws_opponent = ''Spain'', ws_wins = 5, ws_losses = 1, ws_order = 7\<rparr>"
  by (simp only: update_war_def with_token_Inr [OF good_auth_ok])
     (simp add: example_db_def example_patch_def
      mongo_find_one_def matches_def example_war_def WarStatisticUpdate_model_dump_def
      optional_str_def optional_int_def update_one_def set_fields_def project_def
      example_env_def example_WarStatistic_of_doc_def)

section \<open>Initialize default data\<close>

text \<open>
  Claim C5. \<open>initialize_data\<close> leaves the store as it is and reports
  \<^verbatim>\<open>Database already initialized\<close> whenever the leaders collection is non-empty;
  otherwise it appends the three seed leaders, the six seed wars and the four seed
  gallery images to their collections. So a second call, in any environment, after a
  first call changes nothing, and after two calls from the empty store the collections
  hold exactly 3, 6 and 4 documents.
\<close>

theorem initialize_data_once:
  "(leaders db \<noteq> [] \<longrightarrow> initialize_data E db = (''Database already initialized'', db)) \<and>
   (leaders db = [] \<longrightarrow>
      initialize_data E db =
        (''Database initialized successfully'',
         db\<lparr>leaders := map2 with_object_id (map (ObjectId E) [0..<3]) (seed_leaders E),
            wars := wars db @ map2 with_object_id (map (ObjectId E) [3..<9]) (seed_wars E),
            gallery :=
              gallery db @ map2 with_object_id (map (ObjectId E) [9..<13]) (seed_gallery E)\<rparr>)) \<and>
   initialize_data E' (snd (initialize_data E db)) =
     (''Database already initialized'', snd (initialize_data E db)) \<and>
   length (leaders (snd (initialize_data E' (snd (initialize_data E empty_db))))) = 3 \<and>
   length (wars (snd (initialize_data E' (snd (initialize_data E empty_db))))) = 6 \<and>
   length (gallery (snd (initialize_data E' (snd (initialize_data E empty_db))))) = 4 \<and>
   testimonials (snd (initialize_data E' (snd (initialize_data E empty_db)))) = []"
proof -
  have second: "initialize_data E' (snd (initialize_data E db)) =
      (''Database already initialized'', snd (initialize_data E db))" for db
    using initialize_data_leaders_nonempty [of E db]
    by (intro initialize_data_nonempty) blast
  have twice: "snd (initialize_data E' (snd (initialize_data E empty_db))) =
      snd (initialize_data E empty_db)"
    by (simp add: second)
  note l = initialize_data_empty_db(2) [of E]
  note w = initialize_data_empty_db(3) [of E]
  note g = initialize_data_empty_db(4) [of E]
  note t = initialize_data_empty_db(5) [of E]
  show ?thesis
    using second [of db] l w g t
    by (simp only: twice) (simp add: initialize_data_nonempty initialize_data_empty)
qed

theorem initialize_data_once_witness:
  "initialize_data example_env (empty_db\<lparr>leaders := [example_image ''l'']\<rparr>) =
     (''Database already initialized'', empty_db\<lparr>leaders := [example_image ''l'']\<rparr>) \<and>
   initialize_data example_env empty_db =
     (''Database initialized successfully'',
      empty_db\<lparr>leaders :=
          map2 with_object_id (map (ObjectId example_env) [0..<3]) (seed_leaders example_env),
        wars := wars empty_db @
          map2 with_object_id (map (ObjectId example_env) [3..<9]) (seed_wars example_env),
        gallery := gallery empty_db @
          map2 with_object_id (map (ObjectId example_env) [9..<13]) (seed_gallery example_env)\<rparr>) \<and>
   initialize_data example_env (snd (initialize_data example_env empty_db)) =
     (''Database already initialized'', snd (initialize_data example_env empty_db)) \<and>
   length (leaders (snd (initialize_data example_env
     (snd (initialize_data example_env empty_db))))) = 3"
proof -
  have full: "leaders (empty_db\<lparr>leaders := [example_image ''l'']\<rparr>) \<noteq> []"
    by simp
  have none: "leaders empty_db = []"
    by (simp add: empty_db_def)
  note at_full = initialize_data_once
    [of "empty_db\<lparr>leaders := [example_image ''l'']\<rparr>" example_env example_env]
  note at_empty = initialize_data_once [of empty_db example_env example_env]
  have a: "initialize_data example_env (empty_db\<lparr>leaders := [example_image ''l'']\<rparr>) =
     (''Database already initialized'', empty_db\<lparr>leaders := [example_image ''l'']\<rparr>)"
    using at_full [THEN conjunct1] full by (rule mp)
  have b: "initialize_data example_env empty_db =
     (''Database initialized successfully'',
      empty_db\<lparr>leaders :=
          map2 with_object_id (map (ObjectId example_env) [0..<3]) (seed_leaders example_env),
        wars := wars empty_db @
          map2 with_object_id (map (ObjectId example_env) [3..<9]) (seed_wars example_env),
        gallery := gallery empty_db @
          map2 with_object_id (map (ObjectId example_env) [9..<13]) (seed_gallery example_env)\<rparr>)"
    using at_empty [THEN conjunct2, THEN conjunct1] none by (rule mp)
  have c: "initialize_data example_env (snd (initialize_data example_env empty_db)) =
     (''Database already initialized'', snd (initialize_data example_env empty_db))"
    using at_empty [THEN conjunct2, THEN conjunct2, THEN conjunct1] .
  have d: "length (leaders (snd (initialize_data example_env
     (snd (initialize_data example_env empty_db))))) = 3"
    using at_empty [THEN conjunct2, THEN conjunct2, THEN conjunct2, THEN conjunct1] .
  from a b c d show ?thesis
    by (intro conjI)
qed

section \<open>Listings\<close>

text \<open>
  Claim C6, as the code has it. The listing of leaders and of wars is the first 100
  (all, when there are no more) of the documents of the collection in ascending
  \<^verbatim>\<open>order\<close>, each without its \<^verbatim>\<open>_id\<close>. The listing of the gallery is taken in the same
  way from the gallery in descending \<^verbatim>\<open>created_at\<close>, and the listing of testimonials
  from the testimonials its query selects - not from all of them: only those with
  \<^verbatim>\<open>approved\<close> true unless \<^verbatim>\<open>approved_only\<close> is false - and in both every string
  \<^verbatim>\<open>created_at\<close> is then replaced by the datetime it parses to. These two listings return
  whenever the stored \<^verbatim>\<open>created_at\<close> strings parse; otherwise they can only fail with
  \<^verbatim>\<open>ValueError\<close>. No returned document has an \<^verbatim>\<open>_id\<close>.
\<close>

theorem listings_sorted_capped_stripped:
  "listing_of (ascending_by ''order'') (leaders db) (get_leaders db) \<and>
   (\<forall>d\<in>set (get_leaders db). d ''_id'' = None) \<and>
   listing_of (ascending_by ''order'') (wars db) (get_wars db) \<and>
   (\<forall>d\<in>set (get_wars db). d ''_id'' = None) \<and>
   (\<forall>ds. get_gallery E db = Inr ds \<longrightarrow>
      (\<exists>cs. listing_of (descending_by ''created_at'') (gallery db) cs \<and>
         map (parse_created_at E) cs = map Inr ds) \<and>
      (\<forall>d\<in>set ds. d ''_id'' = None)) \<and>
   (\<forall>ds. get_testimonials E approved_only db = Inr ds \<longrightarrow>
      (\<exists>cs. listing_of (descending_by ''created_at'')
           (selected approved_only (testimonials db)) cs \<and>
         map (parse_created_at E) cs = map Inr ds) \<and>
      (\<forall>d\<in>set ds. d ''_id'' = None)) \<and>
   ((\<forall>d\<in>set (gallery db). \<forall>s. d ''created_at'' = Some (PStr s) \<longrightarrow> fromisoformat E s \<noteq> None) \<longrightarrow>
      (\<exists>ds. get_gallery E db = Inr ds)) \<and>
   ((\<forall>d\<in>set (testimonials db). \<forall>s. d ''created_at'' = Some (PStr s) \<longrightarrow>
        fromisoformat E s \<noteq> None) \<longrightarrow>
      (\<exists>ds. get_testimonials E approved_only db = Inr ds)) \<and>
   (\<forall>e. get_gallery E db = Inl e \<or> get_testimonials E approved_only db = Inl e \<longrightarrow>
      e = ValueError)"
proof (intro conjI allI impI)
  show "listing_of (ascending_by ''order'') (leaders db) (get_leaders db)"
    by (rule get_leaders_listing)
  show "\<forall>d\<in>set (get_leaders db). d ''_id'' = None"
    by (rule get_leaders_listing)
  show "listing_of (ascending_by ''order'') (wars db) (get_wars db)"
    by (rule get_wars_listing)
  show "\<forall>d\<in>set (get_wars db). d ''_id'' = None"
    by (rule get_wars_listing)
next
  fix ds assume "get_gallery E db = Inr ds"
  then show "\<exists>cs. listing_of (descending_by ''created_at'') (gallery db) cs \<and>
         map (parse_created_at E) cs = map Inr ds"
    and "\<forall>d\<in>set ds. d ''_id'' = None"
    by (rule get_gallery_listing)+
next
  fix ds assume "get_testimonials E approved_only db = Inr ds"
  then show "\<exists>cs. listing_of (descending_by ''created_at'')
           (selected approved_only (testimonials db)) cs \<and>
         map (parse_created_at E) cs = map Inr ds"
    and "\<forall>d\<in>set ds. d ''_id'' = None"
    by (rule get_testimonials_listing)+
next
  assume "\<forall>d\<in>set (gallery db). \<forall>s. d ''created_at'' = Some (PStr s) \<longrightarrow> fromisoformat E s \<noteq> None"
  then show "\<exists>ds. get_gallery E db = Inr ds"
    by (rule get_gallery_total)
next
  assume "\<forall>d\<in>set (testimonials db). \<forall>s. d ''created_at'' = Some (PStr s) \<longrightarrow>
        fromisoformat E s \<noteq> None"
  then show "\<exists>ds. get_testimonials E approved_only db = Inr ds"
    by (rule get_testimonials_total)
next
  fix e assume "get_gallery E db = Inl e \<or> get_testimonials E approved_only db = Inl e"
  then show "e = ValueError"
    using listing_errors by blast
qed

theorem listings_sorted_capped_stripped_witness:
  "listing_of (ascending_by ''order'') (leaders example_db) (get_leaders example_db) \<and>
   listing_of (ascending_by ''order'') (wars example_db) (get_wars example_db) \<and>
   (\<exists>ds. get_gallery example_env example_db = Inr ds \<and>
      (\<exists>cs. listing_of (descending_by ''created_at'') (gallery example_db) cs \<and>
         map (parse_created_at example_env) cs = map Inr ds) \<and>
      (\<forall>d\<in>set ds. d ''_id'' = None)) \<and>
   (\<exists>ds. get_testimonials example_env True example_db = Inr ds \<and>
      (\<exists>cs. listing_of (descending_by ''created_at'')
           (selected True (testimonials example_db)) cs \<and>
         map (parse_created_at example_env) cs = map Inr ds) \<and>
      (\<forall>d\<in>set ds. d ''_id'' = None))"
proof -
  note all = listings_sorted_capped_stripped [of example_db example_env True]
  note r1 = all [THEN conjunct2]
  note r2 = r1 [THEN conjunct2]
  note r3 = r2 [THEN conjunct2]
  note r4 = r3 [THEN conjunct2]
  note r5 = r4 [THEN conjunct2]
  note r6 = r5 [THEN conjunct2]
  note r7 = r6 [THEN conjunct2]
  have l: "listing_of (ascending_by ''order'') (leaders example_db) (get_leaders example_db)"
    using all by (rule conjunct1)
  have w: "listing_of (ascending_by ''order'') (wars example_db) (get_wars example_db)"
    using r2 by (rule conjunct1)
  have "\<exists>ds. get_gallery example_env example_db = Inr ds"
    using r6 [THEN conjunct1] example_db_parses(1) by (rule mp)
  then obtain gs where gs: "get_gallery example_env example_db = Inr gs" ..
  have g: "(\<exists>cs. listing_of (descending_by ''created_at'') (gallery example_db) cs \<and>
         map (parse_created_at example_env) cs = map Inr gs) \<and>
      (\<forall>d\<in>set gs. d ''_id'' = None)"
    using r4 [THEN conjunct1, THEN spec, of gs] gs by (rule mp)
  have "\<exists>ds. get_testimonials example_env True example_db = Inr ds"
    using r7 [THEN conjunct1] example_db_parses(2) by (rule mp)
  then obtain ts where ts: "get_testimonials example_env True example_db = Inr ts" ..
  have t: "(\<exists>cs. listing_of (descending_by ''created_at'')
           (selected True (testimonials example_db)) cs \<and>
         map (parse_created_at example_env) cs = map Inr ts) \<and>
      (\<forall>d\<in>set ts. d ''_id'' = None)"
    using r5 [THEN conjunct1, THEN spec, of ts] ts by (rule mp)
  have g': "\<exists>ds. get_gallery example_env example_db = Inr ds \<and>
      (\<exists>cs. listing_of (descending_by ''created_at'') (gallery example_db) cs \<and>
         map (parse_created_at example_env) cs = map Inr ds) \<and>
      (\<forall>d\<in>set ds. d ''_id'' = None)"
    using gs g by (intro exI [of _ gs]) (rule conjI)
  have t': "\<exists>ds. get_testimonials example_env True example_db = Inr ds \<and>
      (\<exists>cs. listing_of (descending_by ''created_at'')
           (selected True (testimonials example_db)) cs \<and>
         map (parse_created_at example_env) cs = map Inr ds) \<and>
      (\<forall>d\<in>set ds. d ''_id'' = None)"
    using ts t by (intro exI [of _ ts]) (rule conjI)
  from l w g' t' show ?thesis
    by (intro conjI)
qed

theorem default_listing_omits_pending:
  "\<exists>ds. get_testimonials example_env True example_db = Inr ds \<and> length ds = 1 \<and>
     length (testimonials example_db) = 2"
proof -
  obtain ds where ds: "get_testimonials example_env True example_db = Inr ds"
    using get_testimonials_total [OF example_db_parses(2)] by blast
  then obtain cs where
    page: "listing_of (descending_by ''created_at'') (selected True (testimonials example_db)) cs"
    and parsed: "map (parse_created_at example_env) cs = map Inr ds"
    using get_testimonials_listing(1) by blast
  have "length (selected True (testimonials example_db)) = 1"
    by (simp add: selected_def example_db_def example_testimonial_def)
  with page have "length cs = 1"
    by (simp add: listing_of_def)
  moreover have "length cs = length ds"
    using parsed by (metis length_map)
  moreover have "length (testimonials example_db) = 2"
    by (simp add: example_db_def)
  ultimately show ?thesis
    using ds by simp
qed

section \<open>Deleting a document\<close>

text \<open>
  Claim C7. With a valid token, deleting a war, a gallery image or a testimonial by an
  id that no document of the collection carries fails with 404 and leaves the store as
  it was; by an id that is present, it succeeds and the collection afterwards is the
  old one without the first document carrying that id, every other document and
  collection unchanged.
\<close>

theorem delete_not_found_or_removes_one:
  assumes "Depends_verify_token E auth = Inr token"
  shows
    "(\<not> list_ex (has_id i) (wars db) \<longrightarrow>
        delete_war E auth i db = (Inl (HTTPException 404 ''War not found''), db)) \<and>
     (list_ex (has_id i) (wars db) \<longrightarrow>
        (\<exists>xs d ys. first_with_id i (wars db) xs d ys \<and>
           delete_war E auth i db = (Inr ''War deleted successfully'', db\<lparr>wars := xs @ ys\<rparr>))) \<and>
     (\<not> list_ex (has_id i) (gallery db) \<longrightarrow>
        delete_gallery_image E auth i db = (Inl (HTTPException 404 ''Image not found''), db)) \<and>
     (list_ex (has_id i) (gallery db) \<longrightarrow>
        (\<exists>xs d ys. first_with_id i (gallery db) xs d ys \<and>
           delete_gallery_image E auth i db =
             (Inr ''Image deleted successfully'', db\<lparr>gallery := xs @ ys\<rparr>))) \<and>
     (\<not> list_ex (has_id i) (testimonials db) \<longrightarrow>
        delete_testimonial E auth i db =
          (Inl (HTTPException 404 ''Testimonial not found''), db)) \<and>
     (list_ex (has_id i) (testimonials db) \<longrightarrow>
        (\<exists>xs d ys. first_with_id i (testimonials db) xs d ys \<and>
           delete_testimonial E auth i db =
             (Inr ''Testimonial deleted successfully'', db\<lparr>testimonials := xs @ ys\<rparr>)))"
proof (intro conjI impI)
  assume "\<not> list_ex (has_id i) (wars db)"
  with assms show "delete_war E auth i db = (Inl (HTTPException 404 ''War not found''), db)"
    by (rule delete_war_absent)
next
  assume "list_ex (has_id i) (wars db)"
  then obtain xs d ys where f: "first_with_id i (wars db) xs d ys"
    using first_with_id_exists by blast
  with assms show "\<exists>xs d ys. first_with_id i (wars db) xs d ys \<and>
      delete_war E auth i db = (Inr ''War deleted successfully'', db\<lparr>wars := xs @ ys\<rparr>)"
    using delete_war_present by blast
next
  assume "\<not> list_ex (has_id i) (gallery db)"
  with assms show
    "delete_gallery_image E auth i db = (Inl (HTTPException 404 ''Image not found''), db)"
    by (rule delete_gallery_image_absent)
next
  assume "list_ex (has_id i) (gallery db)"
  then obtain xs d ys where f: "first_with_id i (gallery db) xs d ys"
    using first_with_id_exists by blast
  with assms show "\<exists>xs d ys. first_with_id i (gallery db) xs d ys \<and>
      delete_gallery_image E auth i db =
        (Inr ''Image deleted successfully'', db\<lparr>gallery := xs @ ys\<rparr>)"
    using delete_gallery_image_present by blast
next
  assume "\<not> list_ex (has_id i) (testimonials db)"
  with assms show
    "delete_testimonial E auth i db = (Inl (HTTPException 404 ''Testimonial not found''), db)"
    by (rule delete_testimonial_absent)
next
  assume "list_ex (has_id i) (testimonials db)"
  then obtain xs d ys where f: "first_with_id i (testimonials db) xs d ys"
    using first_with_id_exists by blast
  with assms show "\<exists>xs d ys. first_with_id i (testimonials db) xs d ys \<and>
      delete_testimonial E auth i db =
        (Inr ''Testimonial deleted successfully'', db\<lparr>testimonials := xs @ ys\<rparr>)"
    using delete_testimonial_present by blast
qed

theorem delete_not_found_or_removes_one_witness:
  "delete_war example_env good_auth ''zz'' example_db =
     (Inl (HTTPException 404 ''War not found''), example_db) \<and>
   (\<exists>xs d ys. first_with_id ''b'' (wars example_db) xs d ys \<and>
      delete_war example_env good_auth ''b'' example_db =
        (Inr ''War deleted successfully'', example_db\<lparr>wars := xs @ ys\<rparr>)) \<and>
   delete_gallery_image example_env good_auth ''zz'' example_db =
     (Inl (HTTPException 404 ''Image not found''), example_db) \<and>
   (\<exists>xs d ys. first_with_id ''g'' (gallery example_db) xs d ys \<and>
      delete_gallery_image example_env good_auth ''g'' example_db =
        (Inr ''Image deleted successfully'', example_db\<lparr>gallery := xs @ ys\<rparr>)) \<and>
   delete_testimonial example_env good_auth ''zz'' example_db =
     (Inl (HTTPException 404 ''Testimonial not found''), example_db) \<and>
   (\<exists>xs d ys. first_with_id ''u'' (testimonials example_db) xs d ys \<and>
      delete_testimonial example_env good_auth ''u'' example_db =
        (Inr ''Testimonial deleted successfully'', example_db\<lparr>testimonials := xs @ ys\<rparr>))"
proof -
  note absent = delete_not_found_or_removes_one [OF good_auth_ok, of "''zz''" example_db]
  note war = delete_not_found_or_removes_one [OF good_auth_ok, of "''b''" example_db]
  note image = delete_not_found_or_removes_one [OF good_auth_ok, of "''g''" example_db]
  note testimonial = delete_not_found_or_removes_one [OF good_auth_ok, of "''u''" example_db]
  have a1: "delete_war example_env good_auth ''zz'' example_db =
      (Inl (HTTPException 404 ''War not found''), example_db)"
    using absent [THEN conjunct1] example_db_ids(1) by (rule mp)
  have a2: "\<exists>xs d ys. first_with_id ''b'' (wars example_db) xs d ys \<and>
      delete_war example_env good_auth ''b'' example_db =
        (Inr ''War deleted successfully'', example_db\<lparr>wars := xs @ ys\<rparr>)"
    using war [THEN conjunct2, THEN conjunct1] example_db_ids(4) by (rule mp)
  have a3: "delete_gallery_image example_env good_auth ''zz'' example_db =
      (Inl (HTTPException 404 ''Image not found''), example_db)"
    using absent [THEN conjunct2, THEN conjunct2, THEN conjunct1] example_db_ids(2)
    by (rule mp)
  have a4: "\<exists>xs d ys. first_with_id ''g'' (gallery example_db) xs d ys \<and>
      delete_gallery_image example_env good_auth ''g'' example_db =
        (Inr ''Image deleted successfully'', example_db\<lparr>gallery := xs @ ys\<rparr>)"
    using image [THEN conjunct2, THEN conjunct2, THEN conjunct2, THEN conjunct1]
      example_db_ids(5)
    by (rule mp)
  have a5: "delete_testimonial example_env good_auth ''zz'' example_db =
      (Inl (HTTPException 404 ''Testimonial not found''), example_db)"
    using absent [THEN conjunct2, THEN conjunct2, THEN conjunct2, THEN conjunct2, THEN conjunct1]
      example_db_ids(3)
    by (rule mp)
  have a6: "\<exists>xs d ys. first_with_id ''u'' (testimonials example_db) xs d ys \<and>
      delete_testimonial example_env good_auth ''u'' example_db =
        (Inr ''Testimonial deleted successfully'', example_db\<lparr>testimonials := xs @ ys\<rparr>)"
    using testimonial
      [THEN conjunct2, THEN conjunct2, THEN conjunct2, THEN conjunct2, THEN conjunct2]
      example_db_ids(6)
    by (rule mp)
  from a1 a2 a3 a4 a5 a6 show ?thesis
    by (intro conjI)
qed

section \<open>Signs of wins and losses\<close>





section \<open>The default author name\<close>

text \<open>
  Claim C9, as the code has it. A testimonial created from a request body without an
  \<^verbatim>\<open>author_name\<close> has, in the returned record and in the persisted document, the author
  name that \<open>TestimonialCreate\<close> declares as its default: the 14-letter Russian string
  \<open>default_author_name\<close> (in English, "Anonymous warrior"), not the string "anonymous".
\<close>

theorem default_author_name_persisted:
  "t_author_name (fst (create_testimonial E (TestimonialCreate_of_body None content) db)) =
     Some default_author_name \<and>
   (\<exists>doc. testimonials (snd (create_testimonial E (TestimonialCreate_of_body None content) db)) =
        testimonials db @ [doc] \<and>
      doc ''author_name'' = Some (PStr default_author_name))"
  by (simp add: create_testimonial_result TestimonialCreate_of_body_def optional_str_def)

theorem default_author_name_persisted_witness:
  "t_author_name (fst (create_testimonial example_env (TestimonialCreate_of_body None ''Boa'')
      empty_db)) = Some default_author_name \<and>
   (\<exists>doc. testimonials (snd (create_testimonial example_env (TestimonialCreate_of_body None ''Boa'')
        empty_db)) = testimonials empty_db @ [doc] \<and>
      doc ''author_name'' = Some (PStr default_author_name))"
  by (rule default_author_name_persisted)

theorem default_author_name_not_anonymous:
  "t_author_name (fst (create_testimonial example_env (TestimonialCreate_of_body None ''Boa'')
      empty_db)) \<noteq> Some ''anonymous''"
  by (simp add: create_testimonial_result TestimonialCreate_of_body_def default_author_name_def)

section \<open>Admin stats\<close>

text \<open>
  Claim C10. \<open>get_admin_stats\<close> never changes the store. With a valid token, in a store
  whose testimonial documents all carry a boolean \<^verbatim>\<open>approved\<close> field, the reported total
  of testimonials is the sum of the pending and the approved ones, and every reported
  count is the exact number of documents of its collection (of the testimonials with
  \<^verbatim>\<open>approved\<close> false, respectively true, for the pending and approved counts).
\<close>

theorem admin_stats_counts:
  assumes "Depends_verify_token E auth = Inr token"
    and "\<forall>d\<in>set (testimonials db). \<exists>b. d ''approved'' = Some (PBool b)"
  shows
    "\<exists>s. get_admin_stats E auth db = (Inr s, db) \<and>
       total_testimonials s = pending_testimonials s + approved_testimonials s \<and>
       total_testimonials s = length (testimonials db) \<and>
       pending_testimonials s =
         length (filter (\<lambda>d. d ''approved'' = Some (PBool False)) (testimonials db)) \<and>
       approved_testimonials s =
         length (filter (\<lambda>d. d ''approved'' = Some (PBool True)) (testimonials db)) \<and>
       total_wars s = length (wars db) \<and>
       total_gallery s = length (gallery db)"
  using approved_partition [OF assms(2)]
  by (simp add: get_admin_stats_def with_token_Inr [OF assms(1)] count_all count_field)

lemma example_db_approved:
  "\<forall>d\<in>set (testimonials example_db). \<exists>b. d ''approved'' = Some (PBool b)"
  by (auto simp: example_db_def example_testimonial_def)

theorem admin_stats_counts_witness:
  "\<exists>s. get_admin_stats example_env good_auth example_db = (Inr s, example_db) \<and>
     total_testimonials s = pending_testimonials s + approved_testimonials s \<and>
     total_testimonials s = length (testimonials example_db) \<and>
     pending_testimonials s =
       length (filter (\<lambda>d. d ''approved'' = Some (PBool False)) (testimonials example_db)) \<and>
     approved_testimonials s =
       length (filter (\<lambda>d. d ''approved'' = Some (PBool True)) (testimonials example_db)) \<and>
     total_wars s = length (wars example_db) \<and>
     total_gallery s = length (gallery example_db)"
  using good_auth_ok example_db_approved by (rule admin_stats_counts)

lemma admin_stats_read_only: "snd (get_admin_stats E auth db) = db"
  by (simp add: get_admin_stats_def with_token_def split: sum.splits)

lemma admin_stats_example:
  "get_admin_stats example_env good_auth example_db =
     (Inr \<lparr>total_testimonials = 2, pending_testimonials = 1, approved_testimonials = 1,
           total_wars = 2, total_gallery = 1\<rparr>, example_db)"
  by (simp only: get_admin_stats_def with_token_Inr [OF good_auth_ok])
     (simp add: count_all count_field example_db_def example_testimonial_def)

end
